theory Spec2Isabelle
  imports Main "HOL-Library.Char_ord" "HOL-Library.List_Lexorder"
begin

section \<open>The luffy media player: shared data model\<close>

text \<open>
  The repository holds three successive versions of one script, each a class
  \<^verbatim>\<open>AudioPlayer\<close>: \<^verbatim>\<open>luffy01.py\<close> plays files through a subprocess (mpg123 or
  aplay), \<^verbatim>\<open>luffy03.py\<close> through a VLC media player, and \<^verbatim>\<open>luffy06.py\<close> adds an
  event queue drained by a thread. The functions of each version are embedded under
  their own names with the version's number as suffix.

  The object's fields become a record; every method takes the record and returns the
  updated one. Calls into the outside world (VLC, the display, subprocesses) may raise:
  a transition is given the set of calls that raise while it runs, and every
  \<^verbatim>\<open>try/except\<close> of the source is a branch of the model. What the display
  shows is kept as the list of frames pushed to the panel, and what the logger emits
  as the list of log records (\<^verbatim>\<open>basicConfig(level=logging.INFO)\<close> drops DEBUG records).

  Left out: the shutdown path (\<^verbatim>\<open>cleanup\<close>, and \<^verbatim>\<open>stop_playback\<close> of the VLC versions,
  which only \<^verbatim>\<open>cleanup\<close> calls), the album art behind a frame of luffy06, the pixels of a
  frame, and \<^verbatim>\<open>simprain.py\<close>, a display test with no player in it.
\<close>

type_synonym path = string

datatype py_error = IndexError | ZeroDivisionError | ValueError | EngineError | Empty

datatype level = DEBUG | INFO | WARNING | ERROR

datatype log_arg = NoArg | StrArg string | IntArg int | ExcArg py_error

type_synonym log_entry = "level \<times> string \<times> log_arg"

text \<open>The external calls that can raise inside a transition.\<close>

datatype call =
  MediaNew | SetMedia | AudioSetVolume | Play | Pause | Stop | EventAttach | EventDetach
  | Display | Popen | Terminate | Amixer

type_synonym faults = "call set"

text \<open>The VLC player's own state, as far as the commands of the script move it.\<close>

datatype vlc_state = NothingSpecial | EnginePlaying | EnginePaused | EngineStopped

text \<open>
  One frame pushed to the panel by \<^verbatim>\<open>update_display\<close>: the file name drawn, whether it
  is drawn green (\<^verbatim>\<open>is_playing\<close>) or red, the volume drawn, and whether the time line
  is drawn.
\<close>

record frame =
  shown_track :: string
  shown_playing :: bool
  shown_volume :: int
  shown_time :: bool

record player =
  audio_files :: "path list"
  current_track_index :: nat
  is_playing :: bool
  volume :: int
  renders :: "frame list"
  logged :: "log_entry list"

text \<open>
  The VLC versions add the player object: the media it holds
  (\<^verbatim>\<open>player.get_media()\<close>), its state, the volume last set on it, and whether
  \<^verbatim>\<open>on_media_end\<close> is attached to its event manager.
\<close>

record vlc_player = player +
  media :: "path option"
  engine :: vlc_state
  engine_volume :: "int option"
  end_attached :: bool

text \<open>The status of the specification, and the semantic events it speaks of.\<close>

datatype status = Stopped | Playing | Paused

datatype button = PlayPause | Next | VolumeDown | VolumeUp

datatype event = ButtonPressed button | MediaEnded

definition logger :: "level \<Rightarrow> string \<Rightarrow> log_arg \<Rightarrow> 'a player_scheme \<Rightarrow> 'a player_scheme" where
  "logger lv msg arg s =
     (if lv = DEBUG then s else s\<lparr>logged := logged s @ [(lv, msg, arg)]\<rparr>)"

text \<open>\<^verbatim>\<open>Path(p).name\<close>: the last component of a path.\<close>

definition path_name :: "path \<Rightarrow> string" where
  "path_name p = rev (takeWhile (\<lambda>c. c \<noteq> CHR ''/'') (rev p))"

text \<open>\<^verbatim>\<open>BUTTONS = [5, 6, 16, 24]\<close>, \<^verbatim>\<open>LABELS = ['A', 'B', 'X', 'Y']\<close>.\<close>

definition BUTTONS :: "int list" where
  "BUTTONS = [5, 6, 16, 24]"

definition LABELS :: "char list" where
  "LABELS = [CHR ''A'', CHR ''B'', CHR ''X'', CHR ''Y'']"

text \<open>\<^verbatim>\<open>list.index\<close>: the first position of a value, ValueError when absent.\<close>

fun index_of :: "'a list \<Rightarrow> 'a \<Rightarrow> py_error + nat" where
  "index_of [] x = Inl ValueError"
| "index_of (y # ys) x =
     (if y = x then Inr 0
      else case index_of ys x of Inl e \<Rightarrow> Inl e | Inr i \<Rightarrow> Inr (Suc i))"

text \<open>
  The physical line of each button of the specification: A (line 5) is Play/Pause,
  B (6) is Next, X (16) is Volume Down, Y (24) is Volume Up.
\<close>

fun pin_of :: "button \<Rightarrow> int" where
  "pin_of PlayPause = 5"
| "pin_of Next = 6"
| "pin_of VolumeDown = 16"
| "pin_of VolumeUp = 24"

text \<open>
  The VLC commands. \<^verbatim>\<open>play\<close> starts or resumes the loaded media and does nothing
  without one; \<^verbatim>\<open>pause\<close> toggles between playing and paused.
\<close>

definition engine_play :: "'a vlc_player_scheme \<Rightarrow> 'a vlc_player_scheme" where
  "engine_play s = (if media s = None then s else s\<lparr>engine := EnginePlaying\<rparr>)"

definition engine_pause :: "'a vlc_player_scheme \<Rightarrow> 'a vlc_player_scheme" where
  "engine_pause s =
     (if media s = None then s
      else if engine s = EnginePlaying then s\<lparr>engine := EnginePaused\<rparr>
      else if engine s = EnginePaused then s\<lparr>engine := EnginePlaying\<rparr>
      else s)"

section \<open>luffy03.py\<close>

definition update_display03 :: "faults \<Rightarrow> vlc_player \<Rightarrow> vlc_player" where
  "update_display03 F s =
     (if length (audio_files s) \<le> current_track_index s
        then logger ERROR ''Error updating display'' (ExcArg IndexError) s
      else if Display \<in> F
        then logger ERROR ''Error updating display'' (ExcArg EngineError) s
      else s\<lparr>renders := renders s @
             [\<lparr>shown_track = path_name (audio_files s ! current_track_index s),
               shown_playing = is_playing s,
               shown_volume = volume s,
               shown_time = (is_playing s \<and> media s \<noteq> None)\<rparr>]\<rparr>)"

text \<open>
  \<^verbatim>\<open>start_playback\<close>: the whole body is one \<^verbatim>\<open>try\<close>; whatever raises is logged and the
  assignments made before it stay.
\<close>

definition start_playback03 :: "faults \<Rightarrow> vlc_player \<Rightarrow> vlc_player" where
  "start_playback03 F s =
     (if length (audio_files s) \<le> current_track_index s
        then logger ERROR ''Error starting playback'' (ExcArg IndexError) s
      else let current_file = audio_files s ! current_track_index s in
        if MediaNew \<in> F then logger ERROR ''Error starting playback'' (ExcArg EngineError) s
        else if SetMedia \<in> F then logger ERROR ''Error starting playback'' (ExcArg EngineError) s
        else let s1 = s\<lparr>media := Some current_file\<rparr> in
        if AudioSetVolume \<in> F then logger ERROR ''Error starting playback'' (ExcArg EngineError) s1
        else let s2 = s1\<lparr>engine_volume := Some (volume s1)\<rparr> in
        if Play \<in> F then logger ERROR ''Error starting playback'' (ExcArg EngineError) s2
        else let s3 = (engine_play s2)\<lparr>is_playing := True\<rparr>;
                 s4 = update_display03 F s3;
                 s5 = logger INFO ''Started playing'' (StrArg current_file) s4 in
        if EventAttach \<in> F then logger ERROR ''Error starting playback'' (ExcArg EngineError) s5
        else s5\<lparr>end_attached := True\<rparr>)"

text \<open>
  \<^verbatim>\<open>toggle_playback\<close> and \<^verbatim>\<open>next_track\<close> have no handler of their own: \<open>Inl e\<close> is the
  exception \<open>e\<close> leaving the method, which happens before any field is assigned.
\<close>

definition toggle_playback03 :: "faults \<Rightarrow> vlc_player \<Rightarrow> py_error + vlc_player" where
  "toggle_playback03 F s =
     (if media s = None then Inr (start_playback03 F s)
      else if is_playing s then
        (if Pause \<in> F then Inl EngineError
         else Inr (update_display03 F ((engine_pause s)\<lparr>is_playing := False\<rparr>)))
      else
        (if Play \<in> F then Inl EngineError
         else Inr (update_display03 F ((engine_play s)\<lparr>is_playing := True\<rparr>))))"

definition next_track03 :: "faults \<Rightarrow> vlc_player \<Rightarrow> py_error + vlc_player" where
  "next_track03 F s =
     (if audio_files s = [] then Inl ZeroDivisionError
      else let s1 = s\<lparr>current_track_index :=
                        (current_track_index s + 1) mod length (audio_files s)\<rparr>;
               s2 = (if is_playing s1 then start_playback03 F s1 else update_display03 F s1)
           in Inr (logger INFO ''Switched to track''
                     (StrArg (audio_files s2 ! current_track_index s2)) s2))"

definition on_media_end03 :: "faults \<Rightarrow> vlc_player \<Rightarrow> py_error + vlc_player" where
  "on_media_end03 F s = next_track03 F s"

definition adjust_volume03 :: "faults \<Rightarrow> int \<Rightarrow> vlc_player \<Rightarrow> vlc_player" where
  "adjust_volume03 F delta s =
     (let s1 = s\<lparr>volume := max 0 (min 100 (volume s + delta))\<rparr> in
      if AudioSetVolume \<in> F then logger ERROR ''Error adjusting volume'' (ExcArg EngineError) s1
      else logger INFO ''Volume adjusted to'' (IntArg (volume s1))
             (update_display03 F (s1\<lparr>engine_volume := Some (volume s1)\<rparr>)))"

text \<open>
  \<^verbatim>\<open>handle_button\<close>: the label is looked up outside the \<^verbatim>\<open>try\<close> (a line that is not a
  button raises ValueError); what the chosen method raises is logged.
\<close>

definition handle_button03 :: "faults \<Rightarrow> int \<Rightarrow> vlc_player \<Rightarrow> py_error + vlc_player" where
  "handle_button03 F pin s =
     (case index_of BUTTONS pin of
        Inl e \<Rightarrow> Inl e
      | Inr i \<Rightarrow>
          let label = LABELS ! i;
              s0 = logger DEBUG ''Button pressed'' (StrArg [label]) s;
              r = (if label = CHR ''A'' then toggle_playback03 F s0
                   else if label = CHR ''B'' then next_track03 F s0
                   else if label = CHR ''X'' then Inr (adjust_volume03 F (- 5) s0)
                   else if label = CHR ''Y'' then Inr (adjust_volume03 F 5 s0)
                   else Inr s0)
          in Inr (case r of
                    Inl e \<Rightarrow> logger ERROR ''Error handling button press'' (ExcArg e) s0
                  | Inr s' \<Rightarrow> s'))"

text \<open>
  One callback of the running player: a button line firing, or VLC reporting the end of
  the media. An exception that leaves a callback is lost in the caller's thread and the
  fields stay as they were.
\<close>

definition step03 :: "faults \<Rightarrow> event \<Rightarrow> vlc_player \<Rightarrow> vlc_player" where
  "step03 F ev s =
     (case ev of
        ButtonPressed b \<Rightarrow> (case handle_button03 F (pin_of b) s of Inl e \<Rightarrow> s | Inr s' \<Rightarrow> s')
      | MediaEnded \<Rightarrow> (case on_media_end03 F s of Inl e \<Rightarrow> s | Inr s' \<Rightarrow> s'))"

fun process03 :: "(faults \<times> event) list \<Rightarrow> vlc_player \<Rightarrow> vlc_player" where
  "process03 [] s = s"
| "process03 ((F, ev) # evs) s = process03 evs (step03 F ev s)"

subsection \<open>Startup\<close>

text \<open>
  What startup finds: whether the GPIO lines and the font can be set up, and the
  entries of the directory \<^verbatim>\<open>audio_library\<close> (\<open>None\<close> when it does not exist;
  \<open>scan_raises\<close> when listing it raises), and \<open>dice\<close>, what the random number
  generator yields (luffy06 only). \<^verbatim>\<open>sys.exit\<close> raises SystemExit, which no
  \<^verbatim>\<open>except Exception\<close> catches: \<open>Inl (code, s)\<close> is the process ending with that exit
  code in state \<open>s\<close>.
\<close>

record startup_env =
  gpio_ok :: bool
  font_ok :: bool
  audio_dir :: "string list option"
  scan_raises :: bool
  dice :: nat

text \<open>
  A glob pattern \<^verbatim>\<open>*.[mM][pP]3\<close> is a list of character classes after the dot.
\<close>

definition glob_ext :: "string list \<Rightarrow> string \<Rightarrow> bool" where
  "glob_ext ext name =
     (let n = Suc (length ext) in
      n \<le> length name \<and>
      (let suf = drop (length name - n) name in
       hd suf = CHR ''.'' \<and> list_all2 (\<lambda>cls c. c \<in> set cls) ext (tl suf)))"

definition extensions03 :: "string list list" where
  "extensions03 =
     [[''mM'', ''pP'', ''3''], [''wW'', ''aA'', ''vV''], [''mM'', ''4'', ''aA''],
      [''aA'', ''aA'', ''cC'']]"

definition scan03 :: "string list \<Rightarrow> path list" where
  "scan03 names =
     concat (map (\<lambda>ext. sort (map (\<lambda>f. ''audio_library/'' @ f) (filter (glob_ext ext) names)))
               extensions03)"

definition fields03 :: vlc_player where
  "fields03 =
     \<lparr>audio_files = [], current_track_index = 0, is_playing = False, volume = 50,
      renders = [], logged = [],
      media = None, engine = NothingSpecial, engine_volume = None, end_attached = False\<rparr>"

definition setup_gpio :: "startup_env \<Rightarrow> 'a player_scheme \<Rightarrow> (int \<times> 'a player_scheme) + 'a player_scheme" where
  "setup_gpio env s =
     (if gpio_ok env then Inr s
      else Inl (1, logger ERROR ''Failed to initialize GPIO'' (ExcArg EngineError) s))"

definition load_audio_files03 :: "startup_env \<Rightarrow> vlc_player \<Rightarrow> (int \<times> vlc_player) + vlc_player" where
  "load_audio_files03 env s =
     (case audio_dir env of
        None \<Rightarrow> Inl (1, logger ERROR ''audio_library directory not found'' NoArg s)
      | Some names \<Rightarrow>
          if scan_raises env
            then Inl (1, logger ERROR ''Error loading audio files'' (ExcArg EngineError)
                           (s\<lparr>audio_files := []\<rparr>))
          else let s1 = s\<lparr>audio_files := scan03 names\<rparr> in
            if audio_files s1 = []
              then Inl (1, logger ERROR ''No audio files found in audio_library'' NoArg s1)
            else Inr (logger INFO ''Loaded audio files'' (IntArg (int (length (audio_files s1)))) s1))"

definition AudioPlayer03 :: "startup_env \<Rightarrow> (int \<times> vlc_player) + vlc_player" where
  "AudioPlayer03 env =
     (let s0 = (if font_ok env then fields03
                else logger WARNING ''Default font not found, using default bitmap font'' NoArg fields03)
      in case setup_gpio env s0 of
           Inl x \<Rightarrow> Inl x
         | Inr s1 \<Rightarrow> load_audio_files03 env s1)"

text \<open>\<^verbatim>\<open>run\<close> up to \<^verbatim>\<open>signal.pause()\<close>, where the callbacks take over.\<close>

definition run03 :: "faults \<Rightarrow> vlc_player \<Rightarrow> vlc_player" where
  "run03 F s = update_display03 F (logger INFO ''Starting audio player'' NoArg s)"

definition main03 :: "faults \<Rightarrow> startup_env \<Rightarrow> (int \<times> vlc_player) + vlc_player" where
  "main03 F env =
     (case AudioPlayer03 env of
        Inl x \<Rightarrow> Inl x
      | Inr s \<Rightarrow> Inr (run03 F s))"

text \<open>The states the running player of luffy03 can be in.\<close>

inductive reachable03 :: "vlc_player \<Rightarrow> bool" where
  started: "main03 F env = Inr s \<Longrightarrow> reachable03 s"
| stepped: "reachable03 s \<Longrightarrow> reachable03 (step03 F ev s)"

text \<open>
  The status the script distinguishes: \<^verbatim>\<open>is_playing\<close> is Playing; otherwise the player
  holding no media is Stopped (\<^verbatim>\<open>toggle_playback\<close> then loads), holding one is Paused
  (\<^verbatim>\<open>toggle_playback\<close> then resumes).
\<close>

definition status :: "'a vlc_player_scheme \<Rightarrow> status" where
  "status s = (if is_playing s then Playing else if media s = None then Stopped else Paused)"


section \<open>luffy06.py\<close>

text \<open>
  luffy06 adds the media object the script keeps (\<^verbatim>\<open>current_media\<close>), the event queue
  and the flag \<^verbatim>\<open>running\<close>. Here \<open>end_attached\<close> says whether
  \<^verbatim>\<open>on_media_state_changed\<close> is attached to the current media. Every handler runs under
  \<^verbatim>\<open>self.lock\<close> where it changes fields, so each is one atomic step.
\<close>

datatype qevent = MEDIA_END | UPDATE_DISPLAY

record queue_player = vlc_player +
  current_media :: "path option"
  event_queue :: "qevent list"
  running :: bool

datatype event_type = MediaStateChanged | MediaPlayerEndReached

datatype media_state = Opening | Buffering | MediaPlaying | MediaPaused | MediaStopped | Ended | MediaError

record vlc_event =
  ev_type :: event_type
  new_state :: media_state

definition put :: "qevent \<Rightarrow> queue_player \<Rightarrow> queue_player" where
  "put e s = s\<lparr>event_queue := event_queue s @ [e]\<rparr>"

definition update_display06 :: "faults \<Rightarrow> queue_player \<Rightarrow> queue_player" where
  "update_display06 F s =
     (if length (audio_files s) \<le> current_track_index s
        then logger ERROR ''Error updating display'' (ExcArg IndexError) s
      else if Display \<in> F
        then logger ERROR ''Error updating display'' (ExcArg EngineError) s
      else s\<lparr>renders := renders s @
             [\<lparr>shown_track = path_name (audio_files s ! current_track_index s),
               shown_playing = is_playing s,
               shown_volume = volume s,
               shown_time = (is_playing s \<and> media s \<noteq> None)\<rparr>]\<rparr>)"

definition start_playback06 :: "faults \<Rightarrow> queue_player \<Rightarrow> queue_player" where
  "start_playback06 F s =
     (if length (audio_files s) \<le> current_track_index s
        then logger ERROR ''Error starting playback'' (ExcArg IndexError) s
      else let current_file = audio_files s ! current_track_index s in
        if current_media s \<noteq> None \<and> EventDetach \<in> F
          then logger ERROR ''Error starting playback'' (ExcArg EngineError) s
        else let s0 = (if current_media s \<noteq> None then s\<lparr>end_attached := False\<rparr> else s) in
        if MediaNew \<in> F then logger ERROR ''Error starting playback'' (ExcArg EngineError) s0
        else let s1 = s0\<lparr>current_media := Some current_file\<rparr> in
        if SetMedia \<in> F then logger ERROR ''Error starting playback'' (ExcArg EngineError) s1
        else let s2 = s1\<lparr>media := Some current_file\<rparr> in
        if EventAttach \<in> F then logger ERROR ''Error starting playback'' (ExcArg EngineError) s2
        else let s3 = s2\<lparr>end_attached := True\<rparr> in
        if AudioSetVolume \<in> F then logger ERROR ''Error starting playback'' (ExcArg EngineError) s3
        else let s4 = s3\<lparr>engine_volume := Some (volume s3)\<rparr> in
        if Play \<in> F then logger ERROR ''Error starting playback'' (ExcArg EngineError) s4
        else logger INFO ''Started playing'' (StrArg current_file)
               (put UPDATE_DISPLAY ((engine_play s4)\<lparr>is_playing := True\<rparr>)))"

definition toggle_playback06 :: "faults \<Rightarrow> queue_player \<Rightarrow> py_error + queue_player" where
  "toggle_playback06 F s =
     (if media s = None then Inr (start_playback06 F s)
      else if is_playing s then
        (if Pause \<in> F then Inl EngineError
         else Inr (put UPDATE_DISPLAY ((engine_pause s)\<lparr>is_playing := False\<rparr>)))
      else
        (if Play \<in> F then Inl EngineError
         else Inr (put UPDATE_DISPLAY ((engine_play s)\<lparr>is_playing := True\<rparr>))))"

definition next_track06 :: "faults \<Rightarrow> queue_player \<Rightarrow> py_error + queue_player" where
  "next_track06 F s =
     (if audio_files s = [] then Inl ZeroDivisionError
      else let s1 = s\<lparr>current_track_index :=
                        (current_track_index s + 1) mod length (audio_files s)\<rparr>;
               s2 = (if is_playing s1 then start_playback06 F s1 else put UPDATE_DISPLAY s1)
           in Inr (logger INFO ''Switched to track''
                     (StrArg (audio_files s2 ! current_track_index s2)) s2))"

definition adjust_volume06 :: "faults \<Rightarrow> int \<Rightarrow> queue_player \<Rightarrow> queue_player" where
  "adjust_volume06 F delta s =
     (let s1 = s\<lparr>volume := max 0 (min 100 (volume s + delta))\<rparr> in
      if AudioSetVolume \<in> F then logger ERROR ''Error adjusting volume'' (ExcArg EngineError) s1
      else logger INFO ''Volume adjusted to'' (IntArg (volume s1))
             (put UPDATE_DISPLAY (s1\<lparr>engine_volume := Some (volume s1)\<rparr>)))"

definition handle_button06 :: "faults \<Rightarrow> int \<Rightarrow> queue_player \<Rightarrow> py_error + queue_player" where
  "handle_button06 F pin s =
     (case index_of BUTTONS pin of
        Inl e \<Rightarrow> Inl e
      | Inr i \<Rightarrow>
          let label = LABELS ! i;
              s0 = logger DEBUG ''Button pressed'' (StrArg [label]) s;
              r = (if label = CHR ''A'' then toggle_playback06 F s0
                   else if label = CHR ''B'' then next_track06 F s0
                   else if label = CHR ''X'' then Inr (adjust_volume06 F (- 5) s0)
                   else if label = CHR ''Y'' then Inr (adjust_volume06 F 5 s0)
                   else Inr s0)
          in Inr (case r of
                    Inl e \<Rightarrow> logger ERROR ''Error handling button press'' (ExcArg e) s0
                  | Inr s' \<Rightarrow> s'))"

definition on_media_state_changed06 :: "vlc_event \<Rightarrow> queue_player \<Rightarrow> queue_player" where
  "on_media_state_changed06 ev s =
     (if ev_type ev = MediaStateChanged then
        (if new_state ev = Ended then put MEDIA_END s else s)
      else s)"

text \<open>
  One turn of the loop of \<^verbatim>\<open>event_handler\<close>. \<^verbatim>\<open>event_queue.get(timeout=1.0)\<close> on a queue
  that stays empty raises \<^verbatim>\<open>queue.Empty\<close> after the second; \<^verbatim>\<open>except Exception: continue\<close>
  swallows it, and whatever \<^verbatim>\<open>next_track\<close> raises.
\<close>

definition event_handler06 :: "faults \<Rightarrow> queue_player \<Rightarrow> queue_player" where
  "event_handler06 F s =
     (if \<not> running s then s
      else case event_queue s of
        [] \<Rightarrow> s
      | event_type # q \<Rightarrow>
          let s1 = s\<lparr>event_queue := q\<rparr> in
          if event_type = MEDIA_END then
            (case next_track06 F s1 of Inl e \<Rightarrow> s1 | Inr s2 \<Rightarrow> s2)
          else if event_type = UPDATE_DISPLAY then update_display06 F s1
          else s1)"

text \<open>
  \<^verbatim>\<open>random.randint(lo, hi)\<close> from what the generator yields.
\<close>

definition randint :: "startup_env \<Rightarrow> nat \<Rightarrow> nat \<Rightarrow> nat" where
  "randint env lo hi = lo + dice env mod (hi - lo + 1)"

definition fields06 :: queue_player where
  "fields06 =
     \<lparr>audio_files = [], current_track_index = 0, is_playing = False, volume = 50,
      renders = [], logged = [],
      media = None, engine = NothingSpecial, engine_volume = None, end_attached = False,
      current_media = None, event_queue = [], running = True\<rparr>"

definition load_audio_files06 :: "startup_env \<Rightarrow> queue_player \<Rightarrow> (int \<times> queue_player) + queue_player" where
  "load_audio_files06 env s =
     (case audio_dir env of
        None \<Rightarrow> Inl (1, logger ERROR ''audio_library directory not found'' NoArg s)
      | Some names \<Rightarrow>
          if scan_raises env
            then Inl (1, logger ERROR ''Error loading audio files'' (ExcArg EngineError)
                           (s\<lparr>audio_files := []\<rparr>))
          else let s1 = s\<lparr>audio_files := scan03 names\<rparr> in
            if audio_files s1 = []
              then Inl (1, logger ERROR ''No audio files found in audio_library'' NoArg s1)
            else let s2 = s1\<lparr>current_track_index := randint env 0 (length (audio_files s1) - 1)\<rparr>
              in Inr (logger INFO ''Loaded audio files'' (IntArg (int (length (audio_files s2)))) s2))"

definition AudioPlayer06 :: "startup_env \<Rightarrow> (int \<times> queue_player) + queue_player" where
  "AudioPlayer06 env =
     (let s0 = (if font_ok env then fields06
                else logger WARNING ''Default font not found, using default bitmap font'' NoArg fields06)
      in case setup_gpio env s0 of
           Inl x \<Rightarrow> Inl x
         | Inr s1 \<Rightarrow> load_audio_files06 env s1)"

text \<open>\<^verbatim>\<open>run\<close> up to its loop, and one turn of that loop (followed by \<^verbatim>\<open>time.sleep(1)\<close>).\<close>

definition run06 :: "faults \<Rightarrow> queue_player \<Rightarrow> queue_player" where
  "run06 F s = update_display06 F (logger INFO ''Starting audio player'' NoArg s)"

definition run_loop06 :: "queue_player \<Rightarrow> queue_player" where
  "run_loop06 s =
     (if \<not> running s then s
      else if is_playing s then put UPDATE_DISPLAY s else s)"

definition main06 :: "faults \<Rightarrow> startup_env \<Rightarrow> (int \<times> queue_player) + queue_player" where
  "main06 F env =
     (case AudioPlayer06 env of
        Inl x \<Rightarrow> Inl x
      | Inr s \<Rightarrow> Inr (run06 F s))"

text \<open>
  The execution contexts of luffy06 and what each runs once the player is started: the
  GPIO library calls \<^verbatim>\<open>handle_button\<close> (registered by \<^verbatim>\<open>add_event_detect\<close>), VLC calls
  \<^verbatim>\<open>on_media_state_changed\<close> (registered by \<^verbatim>\<open>event_attach\<close>), the thread started in
  \<^verbatim>\<open>__init__\<close> runs \<^verbatim>\<open>event_handler\<close>, and the main thread runs the loop of \<^verbatim>\<open>run\<close>.
\<close>

datatype exec_context = ButtonCallback | EngineNotification | DrainLoop | MainThread

datatype action = Button int | Notify vlc_event | Drain | Tick

fun context_of :: "action \<Rightarrow> exec_context" where
  "context_of (Button pin) = ButtonCallback"
| "context_of (Notify ev) = EngineNotification"
| "context_of Drain = DrainLoop"
| "context_of Tick = MainThread"

definition exec06 :: "faults \<Rightarrow> action \<Rightarrow> queue_player \<Rightarrow> queue_player" where
  "exec06 F a s =
     (case a of
        Button pin \<Rightarrow> (case handle_button06 F pin s of Inl e \<Rightarrow> s | Inr s' \<Rightarrow> s')
      | Notify ev \<Rightarrow> on_media_state_changed06 ev s
      | Drain \<Rightarrow> event_handler06 F s
      | Tick \<Rightarrow> run_loop06 s)"

fun process06 :: "(faults \<times> action) list \<Rightarrow> queue_player \<Rightarrow> queue_player" where
  "process06 [] s = s"
| "process06 ((F, a) # as) s = process06 as (exec06 F a s)"

inductive reachable06 :: "queue_player \<Rightarrow> bool" where
  started06: "main06 F env = Inr s \<Longrightarrow> reachable06 s"
| stepped06: "reachable06 s \<Longrightarrow> reachable06 (exec06 F a s)"

text \<open>The event thread draining the queue: at most \<open>n\<close> turns, stopping when it is empty.\<close>

fun drain06 :: "nat \<Rightarrow> faults \<Rightarrow> queue_player \<Rightarrow> queue_player" where
  "drain06 0 F s = s"
| "drain06 (Suc n) F s = (if event_queue s = [] then s else drain06 n F (event_handler06 F s))"


section \<open>luffy01.py\<close>

text \<open>
  luffy01 plays a file by starting a subprocess and stops it by terminating the
  subprocess; \<^verbatim>\<open>audio_process\<close> is the running command, if any, and \<open>master_volume\<close>
  the volume last given to \<^verbatim>\<open>amixer\<close>. \<open>Mpg123 v f\<close> stands for the command
  \<^verbatim>\<open>['mpg123', '-a', 'default', '--scale', str(v), f]\<close> and \<open>Aplay f\<close> for
  \<^verbatim>\<open>['aplay', '-D', 'default', f]\<close>.
\<close>

datatype command = Mpg123 int path | Aplay path

record proc_player = player +
  audio_process :: "command option"
  master_volume :: "int option"

text \<open>\<^verbatim>\<open>str.lower\<close> on ASCII letters.\<close>

definition lower_char :: "char \<Rightarrow> char" where
  "lower_char c =
     (if CHR ''A'' \<le> c \<and> c \<le> CHR ''Z'' then char_of (of_char c + (32 :: nat)) else c)"

definition lower :: "string \<Rightarrow> string" where
  "lower p = map lower_char p"

definition get_player_command01 :: "proc_player \<Rightarrow> path \<Rightarrow> command" where
  "get_player_command01 s file_path =
     (let ext = rev (takeWhile (\<lambda>c. c \<noteq> CHR ''.'') (rev (lower file_path))) in
      if ext = ''mp3'' then Mpg123 (volume s) file_path else Aplay file_path)"

definition update_display01 :: "faults \<Rightarrow> proc_player \<Rightarrow> proc_player" where
  "update_display01 F s =
     (if length (audio_files s) \<le> current_track_index s
        then logger ERROR ''Error updating display'' (ExcArg IndexError) s
      else if Display \<in> F
        then logger ERROR ''Error updating display'' (ExcArg EngineError) s
      else s\<lparr>renders := renders s @
             [\<lparr>shown_track = path_name (audio_files s ! current_track_index s),
               shown_playing = is_playing s,
               shown_volume = volume s,
               shown_time = False\<rparr>]\<rparr>)"

text \<open>
  \<^verbatim>\<open>stop_playback\<close> has no handler: \<open>Inl e\<close> is \<^verbatim>\<open>terminate\<close> raising, before any field
  is assigned.
\<close>

definition stop_playback01 :: "faults \<Rightarrow> proc_player \<Rightarrow> py_error + proc_player" where
  "stop_playback01 F s =
     (case audio_process s of
        None \<Rightarrow> Inr s
      | Some p \<Rightarrow>
          if Terminate \<in> F then Inl EngineError
          else Inr (logger INFO ''Playback stopped'' NoArg
                      (update_display01 F (s\<lparr>is_playing := False, audio_process := None\<rparr>))))"

definition start_playback01 :: "faults \<Rightarrow> proc_player \<Rightarrow> proc_player" where
  "start_playback01 F s =
     (case (if audio_process s \<noteq> None then stop_playback01 F s else Inr s) of
        Inl e \<Rightarrow> logger ERROR ''Error starting playback'' (ExcArg e) s
      | Inr s0 \<Rightarrow>
          if length (audio_files s0) \<le> current_track_index s0
            then logger ERROR ''Error starting playback'' (ExcArg IndexError) s0
          else let current_file = audio_files s0 ! current_track_index s0;
                   command = get_player_command01 s0 current_file in
            if Popen \<in> F then logger ERROR ''Error starting playback'' (ExcArg EngineError) s0
            else logger INFO ''Started playing'' (StrArg current_file)
                   (update_display01 F (s0\<lparr>is_playing := True, audio_process := Some command\<rparr>)))"

definition toggle_playback01 :: "faults \<Rightarrow> proc_player \<Rightarrow> py_error + proc_player" where
  "toggle_playback01 F s =
     (if is_playing s then stop_playback01 F s else Inr (start_playback01 F s))"

definition next_track01 :: "faults \<Rightarrow> proc_player \<Rightarrow> py_error + proc_player" where
  "next_track01 F s =
     (if audio_files s = [] then Inl ZeroDivisionError
      else let s1 = s\<lparr>current_track_index :=
                        (current_track_index s + 1) mod length (audio_files s)\<rparr>;
               s2 = (if is_playing s1 then start_playback01 F s1 else s1);
               s3 = update_display01 F s2
           in Inr (logger INFO ''Switched to track''
                     (StrArg (audio_files s3 ! current_track_index s3)) s3))"

text \<open>\<^verbatim>\<open>p.lower().endswith('.mp3')\<close>.\<close>

definition endswith_mp3 :: "path \<Rightarrow> bool" where
  "endswith_mp3 p = (drop (length p - 4) (lower p) = ''.mp3'')"

definition adjust_volume01 :: "faults \<Rightarrow> int \<Rightarrow> proc_player \<Rightarrow> proc_player" where
  "adjust_volume01 F delta s =
     (let s1 = s\<lparr>volume := max 0 (min 100 (volume s + delta))\<rparr> in
      if Amixer \<in> F then logger ERROR ''Error adjusting volume'' (ExcArg EngineError) s1
      else let s2 = s1\<lparr>master_volume := Some (volume s1)\<rparr> in
        if is_playing s2 \<and> length (audio_files s2) \<le> current_track_index s2
          then logger ERROR ''Error adjusting volume'' (ExcArg IndexError) s2
        else let s3 = (if is_playing s2 \<and> endswith_mp3 (audio_files s2 ! current_track_index s2)
                       then start_playback01 F s2 else s2)
          in logger INFO ''Volume adjusted to'' (IntArg (volume s3)) (update_display01 F s3))"

definition handle_button01 :: "faults \<Rightarrow> int \<Rightarrow> proc_player \<Rightarrow> py_error + proc_player" where
  "handle_button01 F pin s =
     (case index_of BUTTONS pin of
        Inl e \<Rightarrow> Inl e
      | Inr i \<Rightarrow>
          let label = LABELS ! i;
              s0 = logger DEBUG ''Button pressed'' (StrArg [label]) s;
              r = (if label = CHR ''A'' then toggle_playback01 F s0
                   else if label = CHR ''B'' then next_track01 F s0
                   else if label = CHR ''X'' then Inr (adjust_volume01 F (- 5) s0)
                   else if label = CHR ''Y'' then Inr (adjust_volume01 F 5 s0)
                   else Inr s0)
          in Inr (case r of
                    Inl e \<Rightarrow> logger ERROR ''Error handling button press'' (ExcArg e) s0
                  | Inr s' \<Rightarrow> s'))"

text \<open>luffy01 has no end-of-media callback: its only events are the buttons.\<close>

definition step01 :: "faults \<Rightarrow> button \<Rightarrow> proc_player \<Rightarrow> proc_player" where
  "step01 F b s = (case handle_button01 F (pin_of b) s of Inl e \<Rightarrow> s | Inr s' \<Rightarrow> s')"


text \<open>The glob pattern \<^verbatim>\<open>*.[mwMW][aApP][vV3]*\<close> of luffy01.\<close>

definition glob01 :: "string \<Rightarrow> bool" where
  "glob01 name =
     list_ex (\<lambda>i. i + 4 \<le> length name \<and> name ! i = CHR ''.'' \<and>
                  name ! (i + 1) \<in> set ''mwMW'' \<and> name ! (i + 2) \<in> set ''aApP'' \<and>
                  name ! (i + 3) \<in> set ''vV3'')
       [0..<length name]"

definition scan01 :: "string list \<Rightarrow> path list" where
  "scan01 names = sort (map (\<lambda>f. ''audio_library/'' @ f) (filter glob01 names))"

definition fields01 :: proc_player where
  "fields01 =
     \<lparr>audio_files = [], current_track_index = 0, is_playing = False, volume = 50,
      renders = [], logged = [], audio_process = None, master_volume = None\<rparr>"

definition load_audio_files01 :: "startup_env \<Rightarrow> proc_player \<Rightarrow> (int \<times> proc_player) + proc_player" where
  "load_audio_files01 env s =
     (case audio_dir env of
        None \<Rightarrow> Inl (1, logger ERROR ''audio_library directory not found'' NoArg s)
      | Some names \<Rightarrow>
          if scan_raises env
            then Inl (1, logger ERROR ''Error loading audio files'' (ExcArg EngineError) s)
          else let s1 = s\<lparr>audio_files := scan01 names\<rparr> in
            if audio_files s1 = []
              then Inl (1, logger ERROR ''No audio files found in audio_library'' NoArg s1)
            else Inr (logger INFO ''Loaded audio files'' (IntArg (int (length (audio_files s1)))) s1))"

definition AudioPlayer01 :: "startup_env \<Rightarrow> (int \<times> proc_player) + proc_player" where
  "AudioPlayer01 env =
     (let s0 = (if font_ok env then fields01
                else logger WARNING ''Default font not found, using default bitmap font'' NoArg fields01)
      in case setup_gpio env s0 of
           Inl x \<Rightarrow> Inl x
         | Inr s1 \<Rightarrow> load_audio_files01 env s1)"

text \<open>\<^verbatim>\<open>run\<close> of luffy01 starts the first track before it waits.\<close>

definition run01 :: "faults \<Rightarrow> proc_player \<Rightarrow> proc_player" where
  "run01 F s =
     start_playback01 F (update_display01 F (logger INFO ''Starting audio player'' NoArg s))"

definition main01 :: "faults \<Rightarrow> startup_env \<Rightarrow> (int \<times> proc_player) + proc_player" where
  "main01 F env =
     (case AudioPlayer01 env of
        Inl x \<Rightarrow> Inl x
      | Inr s \<Rightarrow> Inr (run01 F s))"

text \<open>
  luffy01 has two statuses only: it is playing, or no subprocess exists and
  \<^verbatim>\<open>toggle_playback\<close> starts the current track from its beginning.
\<close>

definition status01 :: "proc_player \<Rightarrow> status" where
  "status01 s = (if is_playing s then Playing else Stopped)"

section \<open>Invariants and example states\<close>

text \<open>
  What holds of the fields in every state the VLC versions reach: the catalog is not
  empty, the index is inside it, the volume is between 0 and 100, and while
  \<^verbatim>\<open>is_playing\<close> is set the player holds a media and was last told to play.
\<close>

definition inv03 :: "'a vlc_player_scheme \<Rightarrow> bool" where
  "inv03 s \<longleftrightarrow>
     audio_files s \<noteq> [] \<and> current_track_index s < length (audio_files s) \<and>
     0 \<le> volume s \<and> volume s \<le> 100 \<and>
     (is_playing s \<longrightarrow> media s \<noteq> None \<and> engine s = EnginePlaying)"

definition inv01 :: "proc_player \<Rightarrow> bool" where
  "inv01 s \<longleftrightarrow>
     audio_files s \<noteq> [] \<and> current_track_index s < length (audio_files s) \<and>
     0 \<le> volume s \<and> volume s \<le> 100 \<and> (is_playing s \<longleftrightarrow> audio_process s \<noteq> None)"

text \<open>A directory with two recognised files and one other file.\<close>

definition demo_env :: startup_env where
  "demo_env =
     \<lparr>gpio_ok = True, font_ok = True, audio_dir = Some [''b.mp3'', ''a.mp3'', ''notes.txt''],
      scan_raises = False, dice = 0\<rparr>"


text \<open>The states in which the three versions wait for events after starting there.\<close>

definition demo03 :: vlc_player where
  "demo03 =
     \<lparr>audio_files = [''audio_library/a.mp3'', ''audio_library/b.mp3''],
      current_track_index = 0, is_playing = False, volume = 50,
      renders = [\<lparr>shown_track = ''a.mp3'', shown_playing = False, shown_volume = 50,
                  shown_time = False\<rparr>],
      logged = [(INFO, ''Loaded audio files'', IntArg 2), (INFO, ''Starting audio player'', NoArg)],
      media = None, engine = NothingSpecial, engine_volume = None, end_attached = False\<rparr>"

definition demo06 :: queue_player where
  "demo06 =
     \<lparr>audio_files = [''audio_library/a.mp3'', ''audio_library/b.mp3''],
      current_track_index = 0, is_playing = False, volume = 50,
      renders = [\<lparr>shown_track = ''a.mp3'', shown_playing = False, shown_volume = 50,
                  shown_time = False\<rparr>],
      logged = [(INFO, ''Loaded audio files'', IntArg 2), (INFO, ''Starting audio player'', NoArg)],
      media = None, engine = NothingSpecial, engine_volume = None, end_attached = False,
      current_media = None, event_queue = [], running = True\<rparr>"

definition demo01 :: proc_player where
  "demo01 =
     \<lparr>audio_files = [''audio_library/a.mp3'', ''audio_library/b.mp3''],
      current_track_index = 0, is_playing = True, volume = 50,
      renders = [\<lparr>shown_track = ''a.mp3'', shown_playing = False, shown_volume = 50,
                  shown_time = False\<rparr>,
                 \<lparr>shown_track = ''a.mp3'', shown_playing = True, shown_volume = 50,
                  shown_time = False\<rparr>],
      logged = [(INFO, ''Loaded audio files'', IntArg 2), (INFO, ''Starting audio player'', NoArg),
                (INFO, ''Started playing'', StrArg ''audio_library/a.mp3'')],
      audio_process = Some (Mpg123 50 ''audio_library/a.mp3''), master_volume = None\<rparr>"

text \<open>A file name one of the four patterns of luffy03 accepts.\<close>

definition recognized03 :: "string \<Rightarrow> bool" where
  "recognized03 name = list_ex (\<lambda>ext. glob_ext ext name) extensions03"

text \<open>The calls of \<^verbatim>\<open>start_playback\<close> that load and play the media.\<close>

definition load_play_calls :: "call set" where
  "load_play_calls = {MediaNew, SetMedia, AudioSetVolume, Play}"

text \<open>Play, pause, Next, play again, with no call raising.\<close>

definition paused_next_resume :: "(faults \<times> event) list" where
  "paused_next_resume =
     [({}, ButtonPressed PlayPause), ({}, ButtonPressed PlayPause), ({}, ButtonPressed Next),
      ({}, ButtonPressed PlayPause)]"

text \<open>The states the running player of luffy01 can be in.\<close>

inductive reachable01 :: "proc_player \<Rightarrow> bool" where
  started01: "main01 F env = Inr s \<Longrightarrow> reachable01 s"
| stepped01: "reachable01 s \<Longrightarrow> reachable01 (step01 F b s)"

text \<open>The calls \<^verbatim>\<open>toggle_playback\<close> can make to the engine, in any of the three versions.\<close>

definition playback_calls :: "call set" where
  "playback_calls =
     {MediaNew, SetMedia, AudioSetVolume, Play, Pause, EventAttach, EventDetach, Popen, Terminate}"

text \<open>Startup with no directory, and with a directory holding no audio file.\<close>

definition absent_env :: startup_env where
  "absent_env =
     \<lparr>gpio_ok = True, font_ok = True, audio_dir = None, scan_raises = False, dice = 0\<rparr>"

definition unrecognized_env :: startup_env where
  "unrecognized_env =
     \<lparr>gpio_ok = True, font_ok = True, audio_dir = Some [''notes.txt'', ''cover.jpg''],
      scan_raises = False, dice = 0\<rparr>"

text \<open>
  luffy06 playing its first track with the queue drained: the start state after the
  Play/Pause button and one turn of the event thread.
\<close>

definition playing06 :: queue_player where
  "playing06 =
     demo06\<lparr>is_playing := True,
       renders := renders demo06 @
         [\<lparr>shown_track = ''a.mp3'', shown_playing = True, shown_volume = 50, shown_time = True\<rparr>],
       logged := logged demo06 @ [(INFO, ''Started playing'', StrArg ''audio_library/a.mp3'')],
       media := Some ''audio_library/a.mp3'', engine := EnginePlaying,
       engine_volume := Some 50, end_attached := True,
       current_media := Some ''audio_library/a.mp3''\<rparr>"

section \<open>Basic facts\<close>

lemma logger_DEBUG: "logger DEBUG msg arg s = s"
  by (simp add: logger_def)

lemma handle_button03_pins:
  "handle_button03 F 5 s =
     Inr (case toggle_playback03 F s of
            Inl e \<Rightarrow> logger ERROR ''Error handling button press'' (ExcArg e) s | Inr s' \<Rightarrow> s')"
  "handle_button03 F 6 s =
     Inr (case next_track03 F s of
            Inl e \<Rightarrow> logger ERROR ''Error handling button press'' (ExcArg e) s | Inr s' \<Rightarrow> s')"
  "handle_button03 F 16 s = Inr (adjust_volume03 F (- 5) s)"
  "handle_button03 F 24 s = Inr (adjust_volume03 F 5 s)"
  by (simp_all add: handle_button03_def BUTTONS_def LABELS_def logger_DEBUG)

lemma handle_button06_pins:
  "handle_button06 F 5 s =
     Inr (case toggle_playback06 F s of
            Inl e \<Rightarrow> logger ERROR ''Error handling button press'' (ExcArg e) s | Inr s' \<Rightarrow> s')"
  "handle_button06 F 6 s =
     Inr (case next_track06 F s of
            Inl e \<Rightarrow> logger ERROR ''Error handling button press'' (ExcArg e) s | Inr s' \<Rightarrow> s')"
  "handle_button06 F 16 s = Inr (adjust_volume06 F (- 5) s)"
  "handle_button06 F 24 s = Inr (adjust_volume06 F 5 s)"
  by (simp_all add: handle_button06_def BUTTONS_def LABELS_def logger_DEBUG)

lemma handle_button01_pins:
  "handle_button01 F 5 s =
     Inr (case toggle_playback01 F s of
            Inl e \<Rightarrow> logger ERROR ''Error handling button press'' (ExcArg e) s | Inr s' \<Rightarrow> s')"
  "handle_button01 F 6 s =
     Inr (case next_track01 F s of
            Inl e \<Rightarrow> logger ERROR ''Error handling button press'' (ExcArg e) s | Inr s' \<Rightarrow> s')"
  "handle_button01 F 16 s = Inr (adjust_volume01 F (- 5) s)"
  "handle_button01 F 24 s = Inr (adjust_volume01 F 5 s)"
  by (simp_all add: handle_button01_def BUTTONS_def LABELS_def logger_DEBUG)

lemma scan03_demo:
  "scan03 [''b.mp3'', ''a.mp3'', ''notes.txt''] = [''audio_library/a.mp3'', ''audio_library/b.mp3'']"
  by code_simp

lemma scan01_demo:
  "scan01 [''b.mp3'', ''a.mp3'', ''notes.txt''] = [''audio_library/a.mp3'', ''audio_library/b.mp3'']"
  by code_simp

lemma path_name_demo:
  "path_name ''audio_library/a.mp3'' = ''a.mp3''" "path_name ''audio_library/b.mp3'' = ''b.mp3''"
  by (simp_all add: path_name_def)

lemma main03_demo: "main03 {} demo_env = Inr demo03"
  by (simp add: main03_def AudioPlayer03_def setup_gpio_def load_audio_files03_def run03_def
      demo_env_def fields03_def scan03_demo logger_def update_display03_def demo03_def
      path_name_demo)

lemma main06_demo: "main06 {} demo_env = Inr demo06"
  by (simp add: main06_def AudioPlayer06_def setup_gpio_def load_audio_files06_def run06_def
      demo_env_def fields06_def scan03_demo logger_def update_display06_def demo06_def
      path_name_demo randint_def)

lemma get_player_command01_demo:
  "get_player_command01 s ''audio_library/a.mp3'' = Mpg123 (volume s) ''audio_library/a.mp3''"
  by (simp add: get_player_command01_def lower_def lower_char_def less_eq_char_def)

lemma main01_demo: "main01 {} demo_env = Inr demo01"
  by (simp add: main01_def AudioPlayer01_def setup_gpio_def load_audio_files01_def run01_def
      demo_env_def fields01_def scan01_demo logger_def update_display01_def demo01_def
      path_name_demo start_playback01_def get_player_command01_demo Let_def)

subsection \<open>Invariant of the VLC versions\<close>

lemma inv03_logger: "inv03 (logger lv msg arg s) = inv03 s"
  by (simp add: inv03_def logger_def)

lemma inv03_update_display03: "inv03 (update_display03 F s) = inv03 s"
  by (simp add: update_display03_def inv03_def logger_def)

lemma inv03_start_playback03: "inv03 s \<Longrightarrow> inv03 (start_playback03 F s)"
  by (simp add: start_playback03_def inv03_def logger_def Let_def engine_play_def update_display03_def)

lemma inv03_toggle_playback03: "inv03 s \<Longrightarrow> toggle_playback03 F s = Inr s' \<Longrightarrow> inv03 s'"
  by (auto simp: toggle_playback03_def inv03_start_playback03 inv03_update_display03 split: if_splits)
    (auto simp: inv03_def engine_pause_def engine_play_def)

lemma inv03_next_track03: "inv03 s \<Longrightarrow> next_track03 F s = Inr s' \<Longrightarrow> inv03 s'"
proof -
  assume i: "inv03 s" and n: "next_track03 F s = Inr s'"
  let ?s1 = "s\<lparr>current_track_index := (current_track_index s + 1) mod length (audio_files s)\<rparr>"
  from i have i1: "inv03 ?s1" by (simp add: inv03_def)
  from i have ne: "audio_files s \<noteq> []" by (simp add: inv03_def)
  show ?thesis
  proof (cases "is_playing s")
    case True
    with n ne have "s' = logger INFO ''Switched to track''
        (StrArg (audio_files (start_playback03 F ?s1) ! current_track_index (start_playback03 F ?s1)))
        (start_playback03 F ?s1)"
      by (simp add: next_track03_def Let_def)
    with i1 show ?thesis by (simp add: inv03_logger inv03_start_playback03)
  next
    case False
    with n ne have "s' = logger INFO ''Switched to track''
        (StrArg (audio_files (update_display03 F ?s1) ! current_track_index (update_display03 F ?s1)))
        (update_display03 F ?s1)"
      by (simp add: next_track03_def Let_def)
    with i1 show ?thesis by (simp add: inv03_logger inv03_update_display03)
  qed
qed

lemma inv03_adjust_volume03: "inv03 s \<Longrightarrow> inv03 (adjust_volume03 F d s)"
  by (simp add: adjust_volume03_def Let_def inv03_logger inv03_update_display03) (simp add: inv03_def)

lemma inv03_step03: "inv03 s \<Longrightarrow> inv03 (step03 F ev s)"
proof (cases ev)
  case (ButtonPressed b)
  assume i: "inv03 s"
  show ?thesis
  proof (cases b)
    case PlayPause
    with ButtonPressed i show ?thesis
      by (auto simp: step03_def handle_button03_pins inv03_logger split: sum.splits
          dest: inv03_toggle_playback03)
  next
    case Next
    with ButtonPressed i show ?thesis
      by (auto simp: step03_def handle_button03_pins inv03_logger split: sum.splits
          dest: inv03_next_track03)
  next
    case VolumeDown
    with ButtonPressed i show ?thesis
      by (simp add: step03_def handle_button03_pins inv03_adjust_volume03)
  next
    case VolumeUp
    with ButtonPressed i show ?thesis
      by (simp add: step03_def handle_button03_pins inv03_adjust_volume03)
  qed
next
  case MediaEnded
  assume "inv03 s"
  with MediaEnded show ?thesis
    by (auto simp: step03_def on_media_end03_def split: sum.splits dest: inv03_next_track03)
qed

lemma scan03_nonempty_index: "load_audio_files03 env s = Inr s' \<Longrightarrow>
  audio_files s' \<noteq> [] \<and> current_track_index s' = current_track_index s \<and>
  is_playing s' = is_playing s \<and> volume s' = volume s"
  by (auto simp: load_audio_files03_def Let_def logger_def split: option.splits if_splits)

lemma inv03_main03: "main03 F env = Inr s \<Longrightarrow> inv03 s"
proof -
  assume m: "main03 F env = Inr s"
  then obtain s1 where a: "AudioPlayer03 env = Inr s1" and s: "s = run03 F s1"
    by (auto simp: main03_def split: sum.splits)
  from a obtain s0 where l: "load_audio_files03 env s0 = Inr s1"
    and s0: "current_track_index s0 = 0 \<and> \<not> is_playing s0 \<and> volume s0 = 50"
    by (auto simp: AudioPlayer03_def setup_gpio_def fields03_def logger_def Let_def
        split: sum.splits if_splits)
  from scan03_nonempty_index [OF l] s0 have "inv03 s1"
    by (simp add: inv03_def)
  with s show ?thesis
    by (simp add: run03_def inv03_update_display03 inv03_logger)
qed

lemma reachable03_inv: "reachable03 s \<Longrightarrow> inv03 s"
  by (induction rule: reachable03.induct) (auto intro: inv03_main03 inv03_step03)

lemma reachable03_process03: "reachable03 s \<Longrightarrow> reachable03 (process03 evs s)"
  by (induction evs arbitrary: s) (auto simp: reachable03.stepped)

lemma reachable03_demo03: "reachable03 demo03"
  by (rule reachable03.started [OF main03_demo])

subsection \<open>What each method of luffy03 leaves alone\<close>

lemma logger_fields:
  "audio_files (logger lv msg arg s) = audio_files s"
  "current_track_index (logger lv msg arg s) = current_track_index s"
  "is_playing (logger lv msg arg s) = is_playing s"
  "volume (logger lv msg arg s) = volume s"
  "renders (logger lv msg arg s) = renders s"
  by (simp_all add: logger_def)

lemma logger_vlc_fields:
  "media (logger lv msg arg s) = media s"
  "engine (logger lv msg arg s) = engine s"
  "engine_volume (logger lv msg arg s) = engine_volume s"
  by (simp_all add: logger_def)

lemma update_display03_fields:
  "audio_files (update_display03 F s) = audio_files s"
  "current_track_index (update_display03 F s) = current_track_index s"
  "is_playing (update_display03 F s) = is_playing s"
  "volume (update_display03 F s) = volume s"
  "media (update_display03 F s) = media s"
  "engine (update_display03 F s) = engine s"
  "engine_volume (update_display03 F s) = engine_volume s"
  by (simp_all add: update_display03_def logger_def)

lemma start_playback03_fields:
  "audio_files (start_playback03 F s) = audio_files s"
  "current_track_index (start_playback03 F s) = current_track_index s"
  "volume (start_playback03 F s) = volume s"
  by (simp_all add: start_playback03_def Let_def logger_fields update_display03_fields engine_play_def)

lemma next_track03_Inr:
  "audio_files s \<noteq> [] \<Longrightarrow> \<exists>s'. next_track03 F s = Inr s' \<and>
     current_track_index s' = (current_track_index s + 1) mod length (audio_files s) \<and>
     audio_files s' = audio_files s \<and> volume s' = volume s"
  by (simp add: next_track03_def Let_def logger_fields update_display03_fields start_playback03_fields)

lemma step03_Next:
  assumes "audio_files s \<noteq> []"
  shows "current_track_index (step03 F (ButtonPressed Next) s) =
           (current_track_index s + 1) mod length (audio_files s)"
    and "audio_files (step03 F (ButtonPressed Next) s) = audio_files s"
    and "volume (step03 F (ButtonPressed Next) s) = volume s"
  using next_track03_Inr [OF assms, of F]
  by (auto simp: step03_def handle_button03_pins)

lemma process03_Next:
  "audio_files s \<noteq> [] \<Longrightarrow> current_track_index s < length (audio_files s) \<Longrightarrow>
   current_track_index (process03 (map (\<lambda>F. (F, ButtonPressed Next)) Fs) s) =
     (current_track_index s + length Fs) mod length (audio_files s)"
proof (induction Fs arbitrary: s)
  case Nil
  then show ?case by simp
next
  case (Cons F Fs)
  let ?s1 = "step03 F (ButtonPressed Next) s"
  from Cons.prems have a: "audio_files ?s1 = audio_files s"
    and i: "current_track_index ?s1 = (current_track_index s + 1) mod length (audio_files s)"
    by (simp_all add: step03_Next)
  from Cons.prems a i have "current_track_index ?s1 < length (audio_files ?s1)"
    by simp
  with Cons.prems a have "current_track_index (process03 (map (\<lambda>F. (F, ButtonPressed Next)) Fs) ?s1) =
     (current_track_index ?s1 + length Fs) mod length (audio_files ?s1)"
    by (intro Cons.IH) simp_all
  with a i show ?case
    by (simp add: mod_add_left_eq)
qed

subsection \<open>What each method of luffy06 leaves alone\<close>

lemma logger_queue_fields:
  "current_media (logger lv msg arg s) = current_media s"
  "event_queue (logger lv msg arg s) = event_queue s"
  "running (logger lv msg arg s) = running s"
  by (simp_all add: logger_def)

lemma put_fields:
  "audio_files (put e s) = audio_files s"
  "current_track_index (put e s) = current_track_index s"
  "is_playing (put e s) = is_playing s"
  "volume (put e s) = volume s"
  "renders (put e s) = renders s"
  "logged (put e s) = logged s"
  "media (put e s) = media s"
  "engine (put e s) = engine s"
  "engine_volume (put e s) = engine_volume s"
  "running (put e s) = running s"
  "event_queue (put e s) = event_queue s @ [e]"
  by (simp_all add: put_def)

lemma update_display06_fields:
  "audio_files (update_display06 F s) = audio_files s"
  "current_track_index (update_display06 F s) = current_track_index s"
  "is_playing (update_display06 F s) = is_playing s"
  "volume (update_display06 F s) = volume s"
  "media (update_display06 F s) = media s"
  "engine (update_display06 F s) = engine s"
  "engine_volume (update_display06 F s) = engine_volume s"
  "event_queue (update_display06 F s) = event_queue s"
  "running (update_display06 F s) = running s"
  by (simp_all add: update_display06_def logger_def)

lemma start_playback06_fields:
  "audio_files (start_playback06 F s) = audio_files s"
  "current_track_index (start_playback06 F s) = current_track_index s"
  "volume (start_playback06 F s) = volume s"
  "renders (start_playback06 F s) = renders s"
  "running (start_playback06 F s) = running s"
  by (simp_all add: start_playback06_def Let_def logger_fields logger_queue_fields put_fields
      engine_play_def)

lemma next_track06_Inr:
  "audio_files s \<noteq> [] \<Longrightarrow> \<exists>s'. next_track06 F s = Inr s' \<and>
     current_track_index s' = (current_track_index s + 1) mod length (audio_files s) \<and>
     audio_files s' = audio_files s \<and> volume s' = volume s \<and> renders s' = renders s"
  by (simp add: next_track06_def Let_def logger_fields put_fields start_playback06_fields)

lemma exec06_Next:
  assumes "audio_files s \<noteq> []"
  shows "current_track_index (exec06 F (Button 6) s) =
           (current_track_index s + 1) mod length (audio_files s)"
    and "audio_files (exec06 F (Button 6) s) = audio_files s"
    and "volume (exec06 F (Button 6) s) = volume s"
  using next_track06_Inr [OF assms, of F]
  by (auto simp: exec06_def handle_button06_pins)

lemma process06_Next:
  "audio_files s \<noteq> [] \<Longrightarrow> current_track_index s < length (audio_files s) \<Longrightarrow>
   current_track_index (process06 (map (\<lambda>F. (F, Button 6)) Fs) s) =
     (current_track_index s + length Fs) mod length (audio_files s)"
proof (induction Fs arbitrary: s)
  case Nil
  then show ?case by simp
next
  case (Cons F Fs)
  let ?s1 = "exec06 F (Button 6) s"
  from Cons.prems have a: "audio_files ?s1 = audio_files s"
    and i: "current_track_index ?s1 = (current_track_index s + 1) mod length (audio_files s)"
    by (simp_all add: exec06_Next)
  from Cons.prems a i have "current_track_index ?s1 < length (audio_files ?s1)"
    by simp
  with Cons.prems a have "current_track_index (process06 (map (\<lambda>F. (F, Button 6)) Fs) ?s1) =
     (current_track_index ?s1 + length Fs) mod length (audio_files ?s1)"
    by (intro Cons.IH) simp_all
  with a i show ?case
    by (simp add: mod_add_left_eq)
qed

subsection \<open>The invariant in luffy06\<close>

lemma inv03_put: "inv03 (put e s) = inv03 s"
  by (simp add: inv03_def put_def)

lemma inv03_update_display06: "inv03 (update_display06 F s) = inv03 s"
  by (simp add: update_display06_def inv03_def logger_def)

lemma inv03_start_playback06: "inv03 s \<Longrightarrow> inv03 (start_playback06 F s)"
  by (simp add: start_playback06_def inv03_def logger_def Let_def engine_play_def put_def)

lemma inv03_toggle_playback06: "inv03 s \<Longrightarrow> toggle_playback06 F s = Inr s' \<Longrightarrow> inv03 s'"
  by (auto simp: toggle_playback06_def inv03_start_playback06 inv03_put split: if_splits)
    (auto simp: inv03_def engine_pause_def engine_play_def)

lemma inv03_next_track06: "inv03 s \<Longrightarrow> next_track06 F s = Inr s' \<Longrightarrow> inv03 s'"
proof -
  assume i: "inv03 s" and n: "next_track06 F s = Inr s'"
  let ?s1 = "s\<lparr>current_track_index := (current_track_index s + 1) mod length (audio_files s)\<rparr>"
  from i have i1: "inv03 ?s1" by (simp add: inv03_def)
  from i have ne: "audio_files s \<noteq> []" by (simp add: inv03_def)
  show ?thesis
  proof (cases "is_playing s")
    case True
    with n ne have "s' = logger INFO ''Switched to track''
        (StrArg (audio_files (start_playback06 F ?s1) ! current_track_index (start_playback06 F ?s1)))
        (start_playback06 F ?s1)"
      by (simp add: next_track06_def Let_def)
    with i1 show ?thesis by (simp add: inv03_logger inv03_start_playback06)
  next
    case False
    with n ne have "s' = logger INFO ''Switched to track''
        (StrArg (audio_files (put UPDATE_DISPLAY ?s1) ! current_track_index (put UPDATE_DISPLAY ?s1)))
        (put UPDATE_DISPLAY ?s1)"
      by (simp add: next_track06_def Let_def)
    with i1 show ?thesis by (simp add: inv03_logger inv03_put)
  qed
qed

lemma inv03_adjust_volume06: "inv03 s \<Longrightarrow> inv03 (adjust_volume06 F d s)"
  by (simp add: adjust_volume06_def Let_def inv03_logger inv03_put) (simp add: inv03_def)

lemma inv03_handle_button06: "inv03 s \<Longrightarrow> handle_button06 F pin s = Inr s' \<Longrightarrow> inv03 s'"
  by (auto simp: handle_button06_def Let_def logger_DEBUG inv03_logger inv03_adjust_volume06
      split: sum.splits if_splits dest: inv03_toggle_playback06 inv03_next_track06)

lemma inv03_event_handler06: "inv03 s \<Longrightarrow> inv03 (event_handler06 F s)"
proof (cases "running s \<and> event_queue s \<noteq> []")
  case False
  assume "inv03 s"
  with False show ?thesis
    by (auto simp: event_handler06_def split: list.splits)
next
  case True
  assume i: "inv03 s"
  from True obtain e q where q: "event_queue s = e # q"
    by (cases "event_queue s") auto
  from i have i1: "inv03 (s\<lparr>event_queue := q\<rparr>)"
    by (simp add: inv03_def)
  with True q show ?thesis
    by (auto simp: event_handler06_def Let_def inv03_update_display06 split: sum.splits
        dest: inv03_next_track06)
qed

lemma inv03_exec06: "inv03 s \<Longrightarrow> inv03 (exec06 F a s)"
  by (cases a)
    (auto simp: exec06_def inv03_event_handler06 on_media_state_changed06_def run_loop06_def
      inv03_put split: sum.splits dest: inv03_handle_button06)

lemma load_audio_files06_Inr: "load_audio_files06 env s = Inr s' \<Longrightarrow>
  audio_files s' \<noteq> [] \<and> current_track_index s' < length (audio_files s') \<and>
  is_playing s' = is_playing s \<and> volume s' = volume s"
  by (auto simp: load_audio_files06_def Let_def logger_def randint_def split: option.splits if_splits)

lemma inv03_main06: "main06 F env = Inr s \<Longrightarrow> inv03 s"
proof -
  assume m: "main06 F env = Inr s"
  then obtain s1 where a: "AudioPlayer06 env = Inr s1" and s: "s = run06 F s1"
    by (auto simp: main06_def split: sum.splits)
  from a obtain s0 where l: "load_audio_files06 env s0 = Inr s1"
    and s0: "\<not> is_playing s0 \<and> volume s0 = 50"
    by (auto simp: AudioPlayer06_def setup_gpio_def fields06_def logger_def Let_def
        split: sum.splits if_splits)
  from load_audio_files06_Inr [OF l] s0 have "inv03 s1"
    by (simp add: inv03_def)
  with s show ?thesis
    by (simp add: run06_def inv03_update_display06 inv03_logger)
qed

lemma reachable06_inv: "reachable06 s \<Longrightarrow> inv03 s"
  by (induction rule: reachable06.induct) (auto intro: inv03_main06 inv03_exec06)

lemma reachable06_process06: "reachable06 s \<Longrightarrow> reachable06 (process06 as s)"
  by (induction as arbitrary: s) (auto simp: reachable06.stepped06)

lemma reachable06_demo06: "reachable06 demo06"
  by (rule reachable06.started06 [OF main06_demo])

section \<open>The claims\<close>

text \<open>
  Claim C6. For every non-empty catalog and every current index, Next sets the index to
  (index + 1) mod len(catalog), whatever the engine does meanwhile; from the last index
  it yields 0; and pressing Next len(catalog) times from an index inside the catalog
  returns to that index. Stated for \<^verbatim>\<open>next_track\<close> of luffy03 (state \<open>s\<close>) and of
  luffy06 (state \<open>q\<close>), reached through the Next button.
\<close>

theorem C6_next_track_cyclic:
  assumes "audio_files s \<noteq> []" and "audio_files q \<noteq> []"
  shows "current_track_index (step03 F (ButtonPressed Next) s) =
           (current_track_index s + 1) mod length (audio_files s) \<and>
         (current_track_index s = length (audio_files s) - 1 \<longrightarrow>
            current_track_index (step03 F (ButtonPressed Next) s) = 0) \<and>
         (current_track_index s < length (audio_files s) \<and> length Fs = length (audio_files s) \<longrightarrow>
            current_track_index (process03 (map (\<lambda>F. (F, ButtonPressed Next)) Fs) s) =
              current_track_index s) \<and>
         current_track_index (exec06 F (Button (pin_of Next)) q) =
           (current_track_index q + 1) mod length (audio_files q) \<and>
         (current_track_index q = length (audio_files q) - 1 \<longrightarrow>
            current_track_index (exec06 F (Button (pin_of Next)) q) = 0) \<and>
         (current_track_index q < length (audio_files q) \<and> length Fs = length (audio_files q) \<longrightarrow>
            current_track_index (process06 (map (\<lambda>F. (F, Button (pin_of Next))) Fs) q) =
              current_track_index q)"
proof -
  from assms(1) have l3: "0 < length (audio_files s)" by simp
  from assms(2) have l6: "0 < length (audio_files q)" by simp
  have a: "current_track_index (step03 F (ButtonPressed Next) s) =
           (current_track_index s + 1) mod length (audio_files s)"
    using assms(1) by (rule step03_Next)
  have b: "current_track_index s = length (audio_files s) - 1 \<longrightarrow>
            current_track_index (step03 F (ButtonPressed Next) s) = 0"
    using a l3 by simp
  have c: "current_track_index s < length (audio_files s) \<and> length Fs = length (audio_files s) \<longrightarrow>
            current_track_index (process03 (map (\<lambda>F. (F, ButtonPressed Next)) Fs) s) =
              current_track_index s"
    using assms(1) by (simp add: process03_Next)
  have d: "current_track_index (exec06 F (Button (pin_of Next)) q) =
           (current_track_index q + 1) mod length (audio_files q)"
    using assms(2) by (simp add: exec06_Next)
  have e: "current_track_index q = length (audio_files q) - 1 \<longrightarrow>
            current_track_index (exec06 F (Button (pin_of Next)) q) = 0"
    using d l6 by simp
  have f: "current_track_index q < length (audio_files q) \<and> length Fs = length (audio_files q) \<longrightarrow>
            current_track_index (process06 (map (\<lambda>F. (F, Button (pin_of Next))) Fs) q) =
              current_track_index q"
    using assms(2) by (simp add: process06_Next)
  from a b c d e f show ?thesis by blast
qed

theorem C6_next_track_cyclic_witness:
  "audio_files demo03 \<noteq> [] \<and> audio_files demo06 \<noteq> [] \<and>
   length (audio_files demo03) = 2 \<and> current_track_index demo03 = 0 \<and>
   current_track_index (step03 {} (ButtonPressed Next) demo03) = 1 \<and>
   current_track_index (step03 {Play} (ButtonPressed Next) (demo03\<lparr>current_track_index := 1\<rparr>)) = 0 \<and>
   current_track_index
     (process03 [({}, ButtonPressed Next), ({MediaNew}, ButtonPressed Next)] demo03) = 0 \<and>
   current_track_index (exec06 {} (Button 6) demo06) = 1 \<and>
   current_track_index (exec06 {Play} (Button 6) (demo06\<lparr>current_track_index := 1\<rparr>)) = 0 \<and>
   current_track_index (process06 [({}, Button 6), ({MediaNew}, Button 6)] demo06) = 0"
proof -
  have a3: "audio_files demo03 \<noteq> []" and a6: "audio_files demo06 \<noteq> []"
    by (simp_all add: demo03_def demo06_def)
  have b3: "audio_files (demo03\<lparr>current_track_index := 1\<rparr>) \<noteq> []"
    and b6: "audio_files (demo06\<lparr>current_track_index := 1\<rparr>) \<noteq> []"
    by (simp_all add: demo03_def demo06_def)
  from C6_next_track_cyclic [OF a3 a6, of "{}" "[{}, {MediaNew}]"]
    C6_next_track_cyclic [OF b3 b6, of "{Play}" "[]"]
  show ?thesis
    by (simp add: demo03_def demo06_def)
qed

text \<open>
  Claim C4. In every state with status Playing, processing MediaEnded produces exactly
  the state that processing ButtonPressed(Next) produces. In luffy03 both callbacks run
  \<^verbatim>\<open>next_track\<close>, and the two resulting states are equal in every field, in every
  status, as long as the catalog is not empty (which startup enforces). In luffy06 the
  event thread taking MEDIA_END off the queue leaves the state the Next button leaves.
\<close>

theorem C4_media_ended_as_next:
  assumes "audio_files s \<noteq> []" and "audio_files q \<noteq> []" and "running q"
  shows "step03 F MediaEnded s = step03 F (ButtonPressed Next) s \<and>
         event_handler06 F (q\<lparr>event_queue := MEDIA_END # es\<rparr>) =
           exec06 F (Button (pin_of Next)) (q\<lparr>event_queue := es\<rparr>)"
proof -
  from assms(1) obtain s' where "next_track03 F s = Inr s'"
    using next_track03_Inr by blast
  then have a: "step03 F MediaEnded s = step03 F (ButtonPressed Next) s"
    by (simp add: step03_def on_media_end03_def handle_button03_pins)
  from assms(2) have "audio_files (q\<lparr>event_queue := es\<rparr>) \<noteq> []" by simp
  then obtain q' where "next_track06 F (q\<lparr>event_queue := es\<rparr>) = Inr q'"
    using next_track06_Inr by blast
  with assms(3) have b: "event_handler06 F (q\<lparr>event_queue := MEDIA_END # es\<rparr>) =
           exec06 F (Button (pin_of Next)) (q\<lparr>event_queue := es\<rparr>)"
    by (simp add: event_handler06_def exec06_def handle_button06_pins)
  from a b show ?thesis ..
qed

theorem C4_media_ended_as_next_witness:
  "status (step03 {} (ButtonPressed PlayPause) demo03) = Playing \<and>
   audio_files (step03 {} (ButtonPressed PlayPause) demo03) \<noteq> [] \<and>
   step03 {} MediaEnded (step03 {} (ButtonPressed PlayPause) demo03) =
     step03 {} (ButtonPressed Next) (step03 {} (ButtonPressed PlayPause) demo03) \<and>
   current_track_index (step03 {} MediaEnded (step03 {} (ButtonPressed PlayPause) demo03)) = 1 \<and>
   status (exec06 {} (Button 5) demo06) = Playing \<and>
   event_handler06 {} ((exec06 {} (Button 5) demo06)\<lparr>event_queue := [MEDIA_END]\<rparr>) =
     exec06 {} (Button 6) ((exec06 {} (Button 5) demo06)\<lparr>event_queue := []\<rparr>)"
proof -
  let ?p = "step03 {} (ButtonPressed PlayPause) demo03"
  let ?q = "exec06 {} (Button 5) demo06"
  have p: "status ?p = Playing \<and> audio_files ?p \<noteq> [] \<and> current_track_index ?p = 0 \<and>
      length (audio_files ?p) = 2"
    by (simp add: demo03_def step03_def handle_button03_pins toggle_playback03_def
        start_playback03_def Let_def logger_def update_display03_def engine_play_def status_def)
  have q: "status ?q = Playing \<and> audio_files ?q \<noteq> [] \<and> running ?q"
    by (simp add: demo06_def exec06_def handle_button06_pins toggle_playback06_def
        start_playback06_def Let_def logger_def put_def engine_play_def status_def)
  from p have i: "current_track_index (step03 {} (ButtonPressed Next) ?p) = 1"
    by (simp add: step03_Next)
  from p q i C4_media_ended_as_next [of ?p ?q "{}" "[]"]
  show ?thesis by simp
qed

lemma demo03_PlayPause:
  "step03 {} (ButtonPressed PlayPause) demo03 =
     demo03\<lparr>is_playing := True,
       renders := renders demo03 @
         [\<lparr>shown_track = ''a.mp3'', shown_playing = True, shown_volume = 50, shown_time = True\<rparr>],
       logged := logged demo03 @ [(INFO, ''Started playing'', StrArg ''audio_library/a.mp3'')],
       media := Some ''audio_library/a.mp3'', engine := EnginePlaying,
       engine_volume := Some 50, end_attached := True\<rparr>"
  by (simp add: demo03_def step03_def handle_button03_pins toggle_playback03_def
      start_playback03_def Let_def logger_def update_display03_def engine_play_def path_name_demo)

lemma demo03_PlayPause_twice:
  "process03 [({}, ButtonPressed PlayPause), ({}, ButtonPressed PlayPause)] demo03 =
     demo03\<lparr>is_playing := False,
       renders := renders demo03 @
         [\<lparr>shown_track = ''a.mp3'', shown_playing = True, shown_volume = 50, shown_time = True\<rparr>,
          \<lparr>shown_track = ''a.mp3'', shown_playing = False, shown_volume = 50, shown_time = False\<rparr>],
       logged := logged demo03 @ [(INFO, ''Started playing'', StrArg ''audio_library/a.mp3'')],
       media := Some ''audio_library/a.mp3'', engine := EnginePaused,
       engine_volume := Some 50, end_attached := True\<rparr>"
  by (simp add: demo03_PlayPause)
    (simp add: demo03_def step03_def handle_button03_pins toggle_playback03_def
      Let_def logger_def update_display03_def engine_pause_def path_name_demo)

text \<open>
  Claim C2 (the code breaks it). In every reachable state with status Playing the engine
  should hold the media of the track at the current index. In luffy03, play, pause, Next,
  play again reaches a state where \<^verbatim>\<open>is_playing\<close> is set, the index is 1 and the frame
  on the panel shows b.mp3 in green, while the player still holds and plays a.mp3:
  \<^verbatim>\<open>toggle_playback\<close> resumes whatever media the player holds.
\<close>

theorem C2_resume_plays_previous_track:
  "reachable03 (process03 paused_next_resume demo03) \<and>
   status (process03 paused_next_resume demo03) = Playing \<and>
   current_track_index (process03 paused_next_resume demo03) = 1 \<and>
   audio_files (process03 paused_next_resume demo03) ! 1 = ''audio_library/b.mp3'' \<and>
   media (process03 paused_next_resume demo03) = Some ''audio_library/a.mp3'' \<and>
   engine (process03 paused_next_resume demo03) = EnginePlaying \<and>
   last (renders (process03 paused_next_resume demo03)) =
     \<lparr>shown_track = ''b.mp3'', shown_playing = True, shown_volume = 50, shown_time = True\<rparr>"
proof -
  have r: "reachable03 (process03 paused_next_resume demo03)"
    by (rule reachable03_process03 [OF reachable03_demo03])
  have e: "process03 paused_next_resume demo03 =
     process03 [({}, ButtonPressed Next), ({}, ButtonPressed PlayPause)]
       (process03 [({}, ButtonPressed PlayPause), ({}, ButtonPressed PlayPause)] demo03)"
    by (simp add: paused_next_resume_def)
  show ?thesis
    unfolding e demo03_PlayPause_twice using r [unfolded e demo03_PlayPause_twice]
    by (simp add: demo03_def step03_def handle_button03_pins toggle_playback03_def next_track03_def
      Let_def logger_def update_display03_def engine_play_def path_name_demo status_def)
qed

lemma next_track03_not_playing:
  "audio_files s \<noteq> [] \<Longrightarrow> \<not> is_playing s \<Longrightarrow> \<exists>s'. next_track03 F s = Inr s' \<and>
     \<not> is_playing s' \<and> media s' = media s \<and> engine s' = engine s \<and> volume s' = volume s"
  by (simp add: next_track03_def Let_def logger_fields logger_vlc_fields update_display03_fields)

lemma next_track06_not_playing:
  "audio_files s \<noteq> [] \<Longrightarrow> \<not> is_playing s \<Longrightarrow> \<exists>s'. next_track06 F s = Inr s' \<and>
     \<not> is_playing s' \<and> media s' = media s \<and> engine s' = engine s \<and> volume s' = volume s"
  by (simp add: next_track06_def Let_def logger_fields logger_vlc_fields put_fields)

text \<open>
  Claim C3, as the code has it. \<^verbatim>\<open>on_media_end\<close> (luffy03) and the MEDIA_END branch of
  \<^verbatim>\<open>event_handler\<close> (luffy06) call \<^verbatim>\<open>next_track\<close> without looking at the status: a
  MediaEnded event advances the index by one, cyclically, in every status. While the
  status is Paused or Stopped the status, the volume, the media the player holds and the
  engine's state stay as they were; the index alone advances (and the display is redrawn).
\<close>

theorem C3_media_ended_advances_in_every_status:
  assumes "audio_files s \<noteq> []" and "audio_files q \<noteq> []" and "running q"
  shows "current_track_index (step03 F MediaEnded s) =
           (current_track_index s + 1) mod length (audio_files s) \<and>
         (status s \<noteq> Playing \<longrightarrow>
            status (step03 F MediaEnded s) = status s \<and>
            volume (step03 F MediaEnded s) = volume s \<and>
            media (step03 F MediaEnded s) = media s \<and>
            engine (step03 F MediaEnded s) = engine s) \<and>
         current_track_index (event_handler06 F (q\<lparr>event_queue := MEDIA_END # es\<rparr>)) =
           (current_track_index q + 1) mod length (audio_files q) \<and>
         (status q \<noteq> Playing \<longrightarrow>
            status (event_handler06 F (q\<lparr>event_queue := MEDIA_END # es\<rparr>)) = status q \<and>
            volume (event_handler06 F (q\<lparr>event_queue := MEDIA_END # es\<rparr>)) = volume q \<and>
            media (event_handler06 F (q\<lparr>event_queue := MEDIA_END # es\<rparr>)) = media q \<and>
            engine (event_handler06 F (q\<lparr>event_queue := MEDIA_END # es\<rparr>)) = engine q)"
proof -
  let ?q = "q\<lparr>event_queue := es\<rparr>"
  have a: "current_track_index (step03 F MediaEnded s) =
           (current_track_index s + 1) mod length (audio_files s)"
    using next_track03_Inr [OF assms(1), of F]
    by (auto simp: step03_def on_media_end03_def)
  have b: "status s \<noteq> Playing \<longrightarrow>
            status (step03 F MediaEnded s) = status s \<and>
            volume (step03 F MediaEnded s) = volume s \<and>
            media (step03 F MediaEnded s) = media s \<and>
            engine (step03 F MediaEnded s) = engine s"
  proof
    assume "status s \<noteq> Playing"
    then have "\<not> is_playing s" by (simp add: status_def split: if_splits)
    from next_track03_not_playing [OF assms(1) this, of F]
    show "status (step03 F MediaEnded s) = status s \<and>
            volume (step03 F MediaEnded s) = volume s \<and>
            media (step03 F MediaEnded s) = media s \<and>
            engine (step03 F MediaEnded s) = engine s"
      using \<open>\<not> is_playing s\<close> by (auto simp: step03_def on_media_end03_def status_def)
  qed
  from assms(2) have ne: "audio_files ?q \<noteq> []" by simp
  have c: "current_track_index (event_handler06 F (q\<lparr>event_queue := MEDIA_END # es\<rparr>)) =
           (current_track_index q + 1) mod length (audio_files q)"
    using next_track06_Inr [OF ne, of F] assms(3)
    by (auto simp: event_handler06_def)
  have d: "status q \<noteq> Playing \<longrightarrow>
            status (event_handler06 F (q\<lparr>event_queue := MEDIA_END # es\<rparr>)) = status q \<and>
            volume (event_handler06 F (q\<lparr>event_queue := MEDIA_END # es\<rparr>)) = volume q \<and>
            media (event_handler06 F (q\<lparr>event_queue := MEDIA_END # es\<rparr>)) = media q \<and>
            engine (event_handler06 F (q\<lparr>event_queue := MEDIA_END # es\<rparr>)) = engine q"
  proof
    assume "status q \<noteq> Playing"
    then have np: "\<not> is_playing ?q" by (simp add: status_def split: if_splits)
    from next_track06_not_playing [OF ne np, of F] assms(3)
    show "status (event_handler06 F (q\<lparr>event_queue := MEDIA_END # es\<rparr>)) = status q \<and>
            volume (event_handler06 F (q\<lparr>event_queue := MEDIA_END # es\<rparr>)) = volume q \<and>
            media (event_handler06 F (q\<lparr>event_queue := MEDIA_END # es\<rparr>)) = media q \<and>
            engine (event_handler06 F (q\<lparr>event_queue := MEDIA_END # es\<rparr>)) = engine q"
      using np by (auto simp: event_handler06_def status_def)
  qed
  from a b c d show ?thesis by blast
qed

theorem C3_media_ended_advances_in_every_status_witness:
  "audio_files demo03 \<noteq> [] \<and> audio_files demo06 \<noteq> [] \<and> running demo06 \<and>
   status demo03 = Stopped \<and> current_track_index demo03 = 0 \<and>
   current_track_index (step03 {} MediaEnded demo03) = 1 \<and>
   status (step03 {} MediaEnded demo03) = Stopped \<and>
   volume (step03 {} MediaEnded demo03) = 50 \<and>
   media (step03 {} MediaEnded demo03) = None \<and>
   status demo06 = Stopped \<and>
   current_track_index (event_handler06 {} (demo06\<lparr>event_queue := [MEDIA_END]\<rparr>)) = 1 \<and>
   status (event_handler06 {} (demo06\<lparr>event_queue := [MEDIA_END]\<rparr>)) = Stopped"
proof -
  have h: "audio_files demo03 \<noteq> []" "audio_files demo06 \<noteq> []" "running demo06"
    by (simp_all add: demo03_def demo06_def)
  have st: "status demo03 = Stopped" "status demo06 = Stopped"
    by (simp_all add: demo03_def demo06_def status_def)
  from C3_media_ended_advances_in_every_status [OF h, of "{}" "[]"] st h
  show ?thesis
    by (simp add: demo03_def demo06_def)
qed

text \<open>
  Claim C3 as the specification states it fails: in a Paused state of luffy03 (play,
  then pause) and in its Stopped start state, MediaEnded moves the index from 0 to 1.
\<close>

theorem C3_media_ended_while_paused_counterexample:
  "status (process03 [({}, ButtonPressed PlayPause), ({}, ButtonPressed PlayPause)] demo03) = Paused \<and>
   current_track_index
     (process03 [({}, ButtonPressed PlayPause), ({}, ButtonPressed PlayPause)] demo03) = 0 \<and>
   current_track_index
     (step03 {} MediaEnded
        (process03 [({}, ButtonPressed PlayPause), ({}, ButtonPressed PlayPause)] demo03)) = 1 \<and>
   status demo03 = Stopped \<and> current_track_index demo03 = 0 \<and>
   current_track_index (step03 {} MediaEnded demo03) = 1"
  unfolding demo03_PlayPause_twice
  by (simp add: demo03_def step03_def on_media_end03_def next_track03_def Let_def logger_def
      update_display03_def status_def)

lemma start_playback03_fault:
  assumes "F \<inter> load_play_calls \<noteq> {}" and "current_track_index s < length (audio_files s)"
  shows "logged (start_playback03 F s) =
           logged s @ [(ERROR, ''Error starting playback'', ExcArg EngineError)]"
    and "is_playing (start_playback03 F s) = is_playing s"
    and "renders (start_playback03 F s) = renders s"
proof -
  from assms(1) have f: "MediaNew \<in> F \<or> SetMedia \<in> F \<or> AudioSetVolume \<in> F \<or> Play \<in> F"
    by (auto simp: load_play_calls_def)
  from f assms(2) show "logged (start_playback03 F s) =
           logged s @ [(ERROR, ''Error starting playback'', ExcArg EngineError)]"
    by (auto simp: start_playback03_def Let_def logger_def)
  from f assms(2) show "is_playing (start_playback03 F s) = is_playing s"
    by (auto simp: start_playback03_def Let_def logger_def)
  from f assms(2) show "renders (start_playback03 F s) = renders s"
    by (auto simp: start_playback03_def Let_def logger_def)
qed

lemma start_playback06_fault:
  assumes "F \<inter> load_play_calls \<noteq> {}" and "current_track_index s < length (audio_files s)"
  shows "logged (start_playback06 F s) =
           logged s @ [(ERROR, ''Error starting playback'', ExcArg EngineError)]"
    and "is_playing (start_playback06 F s) = is_playing s"
    and "event_queue (start_playback06 F s) = event_queue s"
proof -
  from assms(1) have f: "MediaNew \<in> F \<or> SetMedia \<in> F \<or> AudioSetVolume \<in> F \<or> Play \<in> F"
    by (auto simp: load_play_calls_def)
  from f assms(2) show "logged (start_playback06 F s) =
           logged s @ [(ERROR, ''Error starting playback'', ExcArg EngineError)]"
    by (auto simp: start_playback06_def Let_def logger_def)
  from f assms(2) show "is_playing (start_playback06 F s) = is_playing s"
    by (auto simp: start_playback06_def Let_def logger_def)
  from f assms(2) show "event_queue (start_playback06 F s) = event_queue s"
    by (auto simp: start_playback06_def Let_def logger_def)
qed

text \<open>
  Claim C7, as the code has it. When a load or play call (\<^verbatim>\<open>media_new\<close>, \<^verbatim>\<open>set_media\<close>,
  \<^verbatim>\<open>audio_set_volume\<close>, \<^verbatim>\<open>play\<close>) raises inside \<^verbatim>\<open>start_playback\<close>, the failure is not
  fatal: \<^verbatim>\<open>start_playback\<close> returns, exactly one ERROR record is logged, and the index and
  the volume are untouched. \<^verbatim>\<open>is_playing\<close> keeps the value it had before the call: the
  status does not revert to Stopped. A failed start from a not-playing state leaves the
  player not playing; a failed load on Next or MediaEnded while Playing leaves it
  reporting Playing. Stated for luffy03 (\<open>s\<close>) and luffy06 (\<open>q\<close>).
\<close>

theorem C7_failed_start_is_logged_and_keeps_is_playing:
  assumes "F \<inter> load_play_calls \<noteq> {}"
    and "current_track_index s < length (audio_files s)"
    and "current_track_index q < length (audio_files q)"
  shows "logged (start_playback03 F s) =
           logged s @ [(ERROR, ''Error starting playback'', ExcArg EngineError)] \<and>
         is_playing (start_playback03 F s) = is_playing s \<and>
         (status (start_playback03 F s) = Playing \<longleftrightarrow> status s = Playing) \<and>
         current_track_index (start_playback03 F s) = current_track_index s \<and>
         volume (start_playback03 F s) = volume s \<and>
         logged (start_playback06 F q) =
           logged q @ [(ERROR, ''Error starting playback'', ExcArg EngineError)] \<and>
         is_playing (start_playback06 F q) = is_playing q \<and>
         (status (start_playback06 F q) = Playing \<longleftrightarrow> status q = Playing) \<and>
         current_track_index (start_playback06 F q) = current_track_index q \<and>
         volume (start_playback06 F q) = volume q"
proof -
  have p: "\<And>x :: vlc_player. status x = Playing \<longleftrightarrow> is_playing x"
    by (simp add: status_def)
  have p6: "\<And>x :: queue_player. status x = Playing \<longleftrightarrow> is_playing x"
    by (simp add: status_def)
  from start_playback03_fault [OF assms(1,2)] start_playback06_fault [OF assms(1,3)]
  show ?thesis
    by (simp add: p p6 start_playback03_fields start_playback06_fields)
qed

theorem C7_failed_start_is_logged_and_keeps_is_playing_witness:
  "{MediaNew} \<inter> load_play_calls \<noteq> {} \<and>
   current_track_index demo03 < length (audio_files demo03) \<and>
   current_track_index demo06 < length (audio_files demo06) \<and>
   logged (start_playback03 {MediaNew} demo03) =
     logged demo03 @ [(ERROR, ''Error starting playback'', ExcArg EngineError)] \<and>
   status (start_playback03 {MediaNew} demo03) = Stopped \<and>
   logged (start_playback06 {MediaNew} demo06) =
     logged demo06 @ [(ERROR, ''Error starting playback'', ExcArg EngineError)] \<and>
   \<not> is_playing (start_playback06 {MediaNew} demo06)"
proof -
  have h: "{MediaNew} \<inter> load_play_calls \<noteq> {}"
    "current_track_index demo03 < length (audio_files demo03)"
    "current_track_index demo06 < length (audio_files demo06)"
    by (simp_all add: load_play_calls_def demo03_def demo06_def)
  have m: "media (start_playback03 {MediaNew} demo03) = None"
    by (simp add: start_playback03_def demo03_def Let_def logger_def)
  have n: "\<not> is_playing demo03" "\<not> is_playing demo06"
    by (simp_all add: demo03_def demo06_def)
  from C7_failed_start_is_logged_and_keeps_is_playing [OF h] h m n
  show ?thesis
    by (simp add: status_def)
qed

text \<open>
  Claim C7 as the specification states it fails: luffy03 playing track 0, then Next
  while \<^verbatim>\<open>media_new\<close> raises. The error is logged, but the status stays Playing, with the
  index at 1 and the player still holding a.mp3.
\<close>

theorem C7_playing_after_failed_load_counterexample:
  "status (step03 {} (ButtonPressed PlayPause) demo03) = Playing \<and>
   status (step03 {MediaNew} (ButtonPressed Next) (step03 {} (ButtonPressed PlayPause) demo03)) = Playing \<and>
   current_track_index
     (step03 {MediaNew} (ButtonPressed Next) (step03 {} (ButtonPressed PlayPause) demo03)) = 1 \<and>
   media (step03 {MediaNew} (ButtonPressed Next) (step03 {} (ButtonPressed PlayPause) demo03)) =
     Some ''audio_library/a.mp3'' \<and>
   (ERROR, ''Error starting playback'', ExcArg EngineError) \<in>
     set (logged (step03 {MediaNew} (ButtonPressed Next) (step03 {} (ButtonPressed PlayPause) demo03)))"
  unfolding demo03_PlayPause
  by (simp add: demo03_def step03_def handle_button03_pins next_track03_def start_playback03_def
      Let_def logger_def status_def)

subsection \<open>Volume events\<close>


lemma adjust_volume06_fields:
  "volume (adjust_volume06 F d s) = max 0 (min 100 (volume s + d))"
  "current_track_index (adjust_volume06 F d s) = current_track_index s"
  "is_playing (adjust_volume06 F d s) = is_playing s"
  "media (adjust_volume06 F d s) = media s"
  "engine (adjust_volume06 F d s) = engine s"
  "audio_files (adjust_volume06 F d s) = audio_files s"
  "renders (adjust_volume06 F d s) = renders s"
  by (simp_all add: adjust_volume06_def Let_def logger_fields logger_vlc_fields put_fields)

lemma update_display01_fields:
  "audio_files (update_display01 F s) = audio_files s"
  "current_track_index (update_display01 F s) = current_track_index s"
  "is_playing (update_display01 F s) = is_playing s"
  "volume (update_display01 F s) = volume s"
  "audio_process (update_display01 F s) = audio_process s"
  "master_volume (update_display01 F s) = master_volume s"
  by (simp_all add: update_display01_def logger_def)

lemma logger_proc_fields:
  "audio_process (logger lv msg arg s) = audio_process s"
  "master_volume (logger lv msg arg s) = master_volume s"
  by (simp_all add: logger_def)

lemma start_playback01_fields:
  "audio_files (start_playback01 F s) = audio_files s"
  "current_track_index (start_playback01 F s) = current_track_index s"
  "volume (start_playback01 F s) = volume s"
  by (simp_all add: start_playback01_def stop_playback01_def Let_def logger_fields
      update_display01_fields split: option.splits sum.splits if_splits)

lemma start_playback01_ok:
  assumes "Popen \<notin> F" and "Terminate \<notin> F"
    and "current_track_index s < length (audio_files s)"
  shows "is_playing (start_playback01 F s)"
    and "audio_process (start_playback01 F s) =
           Some (get_player_command01 s (audio_files s ! current_track_index s))"
  using assms
  by (auto simp: start_playback01_def stop_playback01_def Let_def logger_fields logger_proc_fields
      update_display01_fields get_player_command01_def split: option.splits)







subsection \<open>The invariant of luffy01\<close>

lemma inv01_logger: "inv01 (logger lv msg arg s) = inv01 s"
  by (simp add: inv01_def logger_def)

lemma inv01_update_display01: "inv01 (update_display01 F s) = inv01 s"
  by (simp add: update_display01_def inv01_def logger_def)

lemma inv01_stop_playback01: "inv01 s \<Longrightarrow> stop_playback01 F s = Inr s' \<Longrightarrow> inv01 s'"
  by (auto simp: stop_playback01_def inv01_logger inv01_update_display01
      split: option.splits if_splits)
    (simp add: inv01_def)

lemma inv01_start_playback01: "inv01 s \<Longrightarrow> inv01 (start_playback01 F s)"
proof -
  assume i: "inv01 s"
  show ?thesis
  proof (cases "if audio_process s \<noteq> None then stop_playback01 F s else Inr s")
    case (Inl e)
    with i show ?thesis
      by (simp add: start_playback01_def inv01_logger)
  next
    case (Inr s0)
    with i have i0: "inv01 s0"
      by (auto split: if_splits dest: inv01_stop_playback01)
    have n0: "audio_process s0 = None \<and> \<not> is_playing s0"
    proof (cases "audio_process s")
      case None
      with Inr i show ?thesis by (auto simp: inv01_def)
    next
      case (Some c)
      with Inr show ?thesis
        by (auto simp: stop_playback01_def logger_fields logger_proc_fields update_display01_fields
            split: if_splits)
    qed
    from i0 have "inv01 (s0\<lparr>is_playing := True, audio_process :=
        Some (get_player_command01 s0 (audio_files s0 ! current_track_index s0))\<rparr>)"
      by (simp add: inv01_def)
    with Inr i0 show ?thesis
      by (simp add: start_playback01_def Let_def inv01_logger inv01_update_display01)
  qed
qed

lemma inv01_toggle_playback01: "inv01 s \<Longrightarrow> toggle_playback01 F s = Inr s' \<Longrightarrow> inv01 s'"
  by (auto simp: toggle_playback01_def inv01_start_playback01 split: if_splits
      dest: inv01_stop_playback01)

lemma inv01_next_track01: "inv01 s \<Longrightarrow> next_track01 F s = Inr s' \<Longrightarrow> inv01 s'"
proof -
  assume i: "inv01 s" and n: "next_track01 F s = Inr s'"
  let ?s1 = "s\<lparr>current_track_index := (current_track_index s + 1) mod length (audio_files s)\<rparr>"
  from i have i1: "inv01 ?s1" by (simp add: inv01_def)
  from i have ne: "audio_files s \<noteq> []" by (simp add: inv01_def)
  show ?thesis
  proof (cases "is_playing s")
    case True
    let ?s3 = "update_display01 F (start_playback01 F ?s1)"
    from True n ne have "s' = logger INFO ''Switched to track''
        (StrArg (audio_files ?s3 ! current_track_index ?s3)) ?s3"
      by (simp add: next_track01_def Let_def)
    with i1 show ?thesis
      by (simp add: inv01_logger inv01_update_display01 inv01_start_playback01)
  next
    case False
    let ?s3 = "update_display01 F ?s1"
    from False n ne have "s' = logger INFO ''Switched to track''
        (StrArg (audio_files ?s3 ! current_track_index ?s3)) ?s3"
      by (simp add: next_track01_def Let_def)
    with i1 show ?thesis
      by (simp add: inv01_logger inv01_update_display01)
  qed
qed

lemma inv01_adjust_volume01: "inv01 s \<Longrightarrow> inv01 (adjust_volume01 F d s)"
proof -
  assume i: "inv01 s"
  let ?s1 = "s\<lparr>volume := max 0 (min 100 (volume s + d))\<rparr>"
  let ?s2 = "?s1\<lparr>master_volume := Some (volume ?s1)\<rparr>"
  from i have i1: "inv01 ?s1" and i2: "inv01 ?s2" by (simp_all add: inv01_def)
  from i2 have i3: "inv01 (start_playback01 F ?s2)" by (rule inv01_start_playback01)
  from i1 i2 i3 show ?thesis
    unfolding adjust_volume01_def Let_def
    by (simp add: inv01_logger inv01_update_display01)
qed

lemma inv01_step01: "inv01 s \<Longrightarrow> inv01 (step01 F b s)"
  by (cases b)
    (auto simp: step01_def handle_button01_pins inv01_logger inv01_adjust_volume01
      split: sum.splits dest: inv01_toggle_playback01 inv01_next_track01)

lemma load_audio_files01_Inr: "load_audio_files01 env s = Inr s' \<Longrightarrow>
  audio_files s' \<noteq> [] \<and> current_track_index s' = current_track_index s \<and>
  is_playing s' = is_playing s \<and> volume s' = volume s \<and> audio_process s' = audio_process s"
  by (auto simp: load_audio_files01_def Let_def logger_def split: option.splits if_splits)

lemma inv01_main01: "main01 F env = Inr s \<Longrightarrow> inv01 s"
proof -
  assume m: "main01 F env = Inr s"
  then obtain s1 where a: "AudioPlayer01 env = Inr s1" and s: "s = run01 F s1"
    by (auto simp: main01_def split: sum.splits)
  from a obtain s0 where l: "load_audio_files01 env s0 = Inr s1"
    and s0: "current_track_index s0 = 0 \<and> \<not> is_playing s0 \<and> volume s0 = 50 \<and>
      audio_process s0 = None"
    by (auto simp: AudioPlayer01_def setup_gpio_def fields01_def logger_def Let_def
        split: sum.splits if_splits)
  from load_audio_files01_Inr [OF l] s0 have "inv01 s1"
    by (simp add: inv01_def)
  with s show ?thesis
    by (simp add: run01_def inv01_update_display01 inv01_logger inv01_start_playback01)
qed

lemma reachable01_inv: "reachable01 s \<Longrightarrow> inv01 s"
  by (induction rule: reachable01.induct) (auto intro: inv01_main01 inv01_step01)

lemma reachable01_demo01: "reachable01 demo01"
  by (rule reachable01.started01 [OF main01_demo])





subsection \<open>Play/Pause\<close>

lemma start_playback03_ok:
  assumes "F \<inter> load_play_calls = {}" and "current_track_index s < length (audio_files s)"
  shows "is_playing (start_playback03 F s)"
    and "media (start_playback03 F s) = Some (audio_files s ! current_track_index s)"
    and "engine (start_playback03 F s) = EnginePlaying"
  using assms
  by (auto simp: start_playback03_def Let_def load_play_calls_def logger_fields logger_vlc_fields
      update_display03_fields engine_play_def logger_def)

lemma start_playback06_ok:
  assumes "F \<inter> load_play_calls = {}" and "EventAttach \<notin> F" and "EventDetach \<notin> F"
    and "current_track_index s < length (audio_files s)"
  shows "is_playing (start_playback06 F s)"
    and "media (start_playback06 F s) = Some (audio_files s ! current_track_index s)"
    and "engine (start_playback06 F s) = EnginePlaying"
  using assms
  by (auto simp: start_playback06_def Let_def load_play_calls_def logger_fields logger_vlc_fields
      put_fields engine_play_def logger_def)

lemma toggle_playback03_table:
  assumes "inv03 s" and "F \<inter> load_play_calls = {}" and "Pause \<notin> F"
  shows "\<exists>s'. toggle_playback03 F s = Inr s' \<and>
     (case status s of
        Stopped \<Rightarrow> status s' = Playing \<and> engine s' = EnginePlaying \<and>
                   media s' = Some (audio_files s ! current_track_index s)
      | Playing \<Rightarrow> status s' = Paused \<and> engine s' = EnginePaused \<and> media s' = media s
      | Paused \<Rightarrow> status s' = Playing \<and> engine s' = EnginePlaying \<and> media s' = media s) \<and>
     current_track_index s' = current_track_index s \<and> volume s' = volume s"
proof (cases "media s = None")
  case True
  with assms(1) have st: "status s = Stopped" and i: "current_track_index s < length (audio_files s)"
    by (auto simp: status_def inv03_def)
  from start_playback03_ok [OF assms(2) i] True st show ?thesis
    by (simp add: toggle_playback03_def status_def start_playback03_fields)
next
  case False
  then obtain m where m: "media s = Some m" by auto
  show ?thesis
  proof (cases "is_playing s")
    case True
    with assms(1) have "engine s = EnginePlaying" by (simp add: inv03_def)
    with True m assms(3) show ?thesis
      by (simp add: toggle_playback03_def status_def update_display03_fields engine_pause_def)
  next
    case np: False
    from assms(2) have "Play \<notin> F" by (auto simp: load_play_calls_def)
    with np m show ?thesis
      by (simp add: toggle_playback03_def status_def update_display03_fields engine_play_def)
  qed
qed

lemma toggle_playback06_table:
  assumes "inv03 s" and "F \<inter> load_play_calls = {}" and "Pause \<notin> F"
    and "EventAttach \<notin> F" and "EventDetach \<notin> F"
  shows "\<exists>s'. toggle_playback06 F s = Inr s' \<and>
     (case status s of
        Stopped \<Rightarrow> status s' = Playing \<and> engine s' = EnginePlaying \<and>
                   media s' = Some (audio_files s ! current_track_index s)
      | Playing \<Rightarrow> status s' = Paused \<and> engine s' = EnginePaused \<and> media s' = media s
      | Paused \<Rightarrow> status s' = Playing \<and> engine s' = EnginePlaying \<and> media s' = media s) \<and>
     current_track_index s' = current_track_index s \<and> volume s' = volume s"
proof (cases "media s = None")
  case True
  with assms(1) have st: "status s = Stopped" and i: "current_track_index s < length (audio_files s)"
    by (auto simp: status_def inv03_def)
  from start_playback06_ok [OF assms(2,4,5) i] True st show ?thesis
    by (simp add: toggle_playback06_def status_def start_playback06_fields)
next
  case False
  then obtain m where m: "media s = Some m" by auto
  show ?thesis
  proof (cases "is_playing s")
    case True
    with assms(1) have "engine s = EnginePlaying" by (simp add: inv03_def)
    with True m assms(3) show ?thesis
      by (simp add: toggle_playback06_def status_def put_fields engine_pause_def)
  next
    case np: False
    from assms(2) have "Play \<notin> F" by (auto simp: load_play_calls_def)
    with np m show ?thesis
      by (simp add: toggle_playback06_def status_def put_fields engine_play_def)
  qed
qed

lemma toggle_playback01_table:
  assumes "inv01 p" and "Popen \<notin> F" and "Terminate \<notin> F"
  shows "\<exists>p'. toggle_playback01 F p = Inr p' \<and>
     (case status01 p of
        Playing \<Rightarrow> status01 p' = Stopped \<and> audio_process p' = None
      | _ \<Rightarrow> status01 p' = Playing \<and>
                   audio_process p' =
                     Some (get_player_command01 p (audio_files p ! current_track_index p))) \<and>
     current_track_index p' = current_track_index p \<and> volume p' = volume p"
proof (cases "is_playing p")
  case True
  with assms(1) obtain c where "audio_process p = Some c" by (auto simp: inv01_def)
  with True assms(3) show ?thesis
    by (simp add: toggle_playback01_def stop_playback01_def status01_def logger_fields
        logger_proc_fields update_display01_fields)
next
  case False
  from assms(1) have i: "current_track_index p < length (audio_files p)"
    by (simp add: inv01_def)
  from start_playback01_ok [OF assms(2,3) i] False show ?thesis
    by (simp add: toggle_playback01_def status01_def start_playback01_fields)
qed

text \<open>
  Claim C1, as the code has it. When no engine call raises, Play/Pause in the VLC versions
  (luffy03, state \<open>s\<close>; luffy06, state \<open>q\<close>) does what the table says: from Stopped it
  loads the current track, plays it and yields Playing; from Playing it pauses the engine
  and yields Paused; from Paused it resumes the engine and yields Playing. luffy01
  (state \<open>p\<close>) has no Paused status: from Playing, Play/Pause terminates the subprocess
  and yields Stopped, and from Stopped it starts the current track. The index and the
  volume are unchanged in every case.
\<close>

theorem C1_play_pause_table:
  assumes "reachable03 s" and "reachable06 q" and "reachable01 p"
    and "F \<inter> playback_calls = {}"
  shows "(let s' = step03 F (ButtonPressed PlayPause) s in
           (case status s of
              Stopped \<Rightarrow> status s' = Playing \<and> engine s' = EnginePlaying \<and>
                         media s' = Some (audio_files s ! current_track_index s)
            | Playing \<Rightarrow> status s' = Paused \<and> engine s' = EnginePaused \<and> media s' = media s
            | Paused \<Rightarrow> status s' = Playing \<and> engine s' = EnginePlaying \<and> media s' = media s) \<and>
           current_track_index s' = current_track_index s \<and> volume s' = volume s) \<and>
         (let q' = exec06 F (Button (pin_of PlayPause)) q in
           (case status q of
              Stopped \<Rightarrow> status q' = Playing \<and> engine q' = EnginePlaying \<and>
                         media q' = Some (audio_files q ! current_track_index q)
            | Playing \<Rightarrow> status q' = Paused \<and> engine q' = EnginePaused \<and> media q' = media q
            | Paused \<Rightarrow> status q' = Playing \<and> engine q' = EnginePlaying \<and> media q' = media q) \<and>
           current_track_index q' = current_track_index q \<and> volume q' = volume q) \<and>
         (let p' = step01 F PlayPause p in
           (case status01 p of
              Playing \<Rightarrow> status01 p' = Stopped \<and> audio_process p' = None
            | _ \<Rightarrow> status01 p' = Playing \<and>
                   audio_process p' =
                     Some (get_player_command01 p (audio_files p ! current_track_index p))) \<and>
           current_track_index p' = current_track_index p \<and> volume p' = volume p)"
proof -
  from assms(4) have f: "F \<inter> load_play_calls = {}" "Pause \<notin> F" "EventAttach \<notin> F"
    "EventDetach \<notin> F" "Popen \<notin> F" "Terminate \<notin> F"
    by (auto simp: playback_calls_def load_play_calls_def)
  from toggle_playback03_table [OF reachable03_inv [OF assms(1)] f(1,2)]
  obtain s' where t3: "toggle_playback03 F s = Inr s'"
    and r3: "(case status s of
              Stopped \<Rightarrow> status s' = Playing \<and> engine s' = EnginePlaying \<and>
                         media s' = Some (audio_files s ! current_track_index s)
            | Playing \<Rightarrow> status s' = Paused \<and> engine s' = EnginePaused \<and> media s' = media s
            | Paused \<Rightarrow> status s' = Playing \<and> engine s' = EnginePlaying \<and> media s' = media s) \<and>
           current_track_index s' = current_track_index s \<and> volume s' = volume s"
    by blast
  from t3 have e3: "step03 F (ButtonPressed PlayPause) s = s'"
    by (simp add: step03_def handle_button03_pins)
  have a: "let s' = step03 F (ButtonPressed PlayPause) s in
           (case status s of
              Stopped \<Rightarrow> status s' = Playing \<and> engine s' = EnginePlaying \<and>
                         media s' = Some (audio_files s ! current_track_index s)
            | Playing \<Rightarrow> status s' = Paused \<and> engine s' = EnginePaused \<and> media s' = media s
            | Paused \<Rightarrow> status s' = Playing \<and> engine s' = EnginePlaying \<and> media s' = media s) \<and>
           current_track_index s' = current_track_index s \<and> volume s' = volume s"
    unfolding Let_def e3 using r3 .
  from toggle_playback06_table [OF reachable06_inv [OF assms(2)] f(1,2,3,4)]
  obtain q' where t6: "toggle_playback06 F q = Inr q'"
    and r6: "(case status q of
              Stopped \<Rightarrow> status q' = Playing \<and> engine q' = EnginePlaying \<and>
                         media q' = Some (audio_files q ! current_track_index q)
            | Playing \<Rightarrow> status q' = Paused \<and> engine q' = EnginePaused \<and> media q' = media q
            | Paused \<Rightarrow> status q' = Playing \<and> engine q' = EnginePlaying \<and> media q' = media q) \<and>
           current_track_index q' = current_track_index q \<and> volume q' = volume q"
    by blast
  from t6 have e6: "exec06 F (Button (pin_of PlayPause)) q = q'"
    by (simp add: exec06_def handle_button06_pins)
  have b: "let q' = exec06 F (Button (pin_of PlayPause)) q in
           (case status q of
              Stopped \<Rightarrow> status q' = Playing \<and> engine q' = EnginePlaying \<and>
                         media q' = Some (audio_files q ! current_track_index q)
            | Playing \<Rightarrow> status q' = Paused \<and> engine q' = EnginePaused \<and> media q' = media q
            | Paused \<Rightarrow> status q' = Playing \<and> engine q' = EnginePlaying \<and> media q' = media q) \<and>
           current_track_index q' = current_track_index q \<and> volume q' = volume q"
    unfolding Let_def e6 using r6 .
  from toggle_playback01_table [OF reachable01_inv [OF assms(3)] f(5,6)]
  obtain p' where t1: "toggle_playback01 F p = Inr p'"
    and r1: "(case status01 p of
              Playing \<Rightarrow> status01 p' = Stopped \<and> audio_process p' = None
            | _ \<Rightarrow> status01 p' = Playing \<and>
                   audio_process p' =
                     Some (get_player_command01 p (audio_files p ! current_track_index p))) \<and>
           current_track_index p' = current_track_index p \<and> volume p' = volume p"
    by blast
  from t1 have e1: "step01 F PlayPause p = p'"
    by (simp add: step01_def handle_button01_pins)
  have c: "let p' = step01 F PlayPause p in
           (case status01 p of
              Playing \<Rightarrow> status01 p' = Stopped \<and> audio_process p' = None
            | _ \<Rightarrow> status01 p' = Playing \<and>
                   audio_process p' =
                     Some (get_player_command01 p (audio_files p ! current_track_index p))) \<and>
           current_track_index p' = current_track_index p \<and> volume p' = volume p"
    unfolding Let_def e1 using r1 .
  from a b c show ?thesis by blast
qed

theorem C1_play_pause_table_witness:
  "reachable03 demo03 \<and> reachable06 demo06 \<and> reachable01 demo01 \<and>
   {Display} \<inter> playback_calls = {} \<and>
   status demo03 = Stopped \<and>
   status (step03 {Display} (ButtonPressed PlayPause) demo03) = Playing \<and>
   media (step03 {Display} (ButtonPressed PlayPause) demo03) = Some ''audio_library/a.mp3'' \<and>
   status (step03 {Display} (ButtonPressed PlayPause)
            (step03 {Display} (ButtonPressed PlayPause) demo03)) = Paused \<and>
   status (step03 {Display} (ButtonPressed PlayPause)
            (step03 {Display} (ButtonPressed PlayPause)
               (step03 {Display} (ButtonPressed PlayPause) demo03))) = Playing \<and>
   status demo06 = Stopped \<and>
   status (exec06 {Display} (Button 5) demo06) = Playing \<and>
   status (exec06 {Display} (Button 5) (exec06 {Display} (Button 5) demo06)) = Paused \<and>
   status (exec06 {Display} (Button 5)
            (exec06 {Display} (Button 5) (exec06 {Display} (Button 5) demo06))) = Playing \<and>
   status01 demo01 = Playing \<and>
   status01 (step01 {Display} PlayPause demo01) = Stopped \<and>
   status01 (step01 {Display} PlayPause (step01 {Display} PlayPause demo01)) = Playing"
proof -
  let ?a = "demo03" and ?a6 = "demo06" and ?a1 = "demo01"
  let ?b = "step03 {Display} (ButtonPressed PlayPause) ?a"
  let ?c = "step03 {Display} (ButtonPressed PlayPause) ?b"
  let ?b6 = "exec06 {Display} (Button 5) ?a6"
  let ?c6 = "exec06 {Display} (Button 5) ?b6"
  let ?b1 = "step01 {Display} PlayPause ?a1"
  have f: "{Display} \<inter> playback_calls = {}"
    by (simp add: playback_calls_def)
  have ra: "reachable03 ?a" "reachable06 ?a6" "reachable01 ?a1"
    by (rule reachable03_demo03 reachable06_demo06 reachable01_demo01)+
  have rb: "reachable03 ?b" "reachable06 ?b6" "reachable01 ?b1"
    by (rule reachable03.stepped reachable06.stepped06 reachable01.stepped01, rule ra)+
  have rc: "reachable03 ?c" "reachable06 ?c6"
    by (rule reachable03.stepped reachable06.stepped06, rule rb)+
  have st: "status ?a = Stopped" "status ?a6 = Stopped" "status01 ?a1 = Playing"
    "audio_files ?a ! current_track_index ?a = ''audio_library/a.mp3''"
    by (simp_all add: demo03_def demo06_def demo01_def status_def status01_def)
  from C1_play_pause_table [OF ra f] st
  have sb: "status ?b = Playing" "status ?b6 = Playing" "status01 ?b1 = Stopped"
    "media ?b = Some ''audio_library/a.mp3''"
    by (simp_all add: Let_def)
  from C1_play_pause_table [OF rb f] sb
  have sc: "status ?c = Paused" "status ?c6 = Paused" "status01 (step01 {Display} PlayPause ?b1) = Playing"
    by (simp_all add: Let_def)
  from C1_play_pause_table [OF rc ra(3) f] sc
  have sd: "status (step03 {Display} (ButtonPressed PlayPause) ?c) = Playing"
    "status (exec06 {Display} (Button 5) ?c6) = Playing"
    by (simp_all add: Let_def)
  from f ra st sb sc sd show ?thesis by simp
qed

text \<open>
  Claim C1 as the specification states it fails in luffy01: started on the example
  directory it is Playing, and Play/Pause then terminates the subprocess. Nothing is
  paused: the status is Stopped and no subprocess is left to resume.
\<close>

theorem C1_luffy01_stops_counterexample:
  "main01 {} demo_env = Inr demo01 \<and>
   status01 demo01 = Playing \<and>
   status01 (step01 {} PlayPause demo01) = Stopped \<and>
   status01 (step01 {} PlayPause demo01) \<noteq> Paused \<and>
   audio_process (step01 {} PlayPause demo01) = None"
proof -
  have "status01 demo01 = Playing \<and>
   status01 (step01 {} PlayPause demo01) = Stopped \<and>
   audio_process (step01 {} PlayPause demo01) = None"
    by (simp add: demo01_def step01_def handle_button01_pins toggle_playback01_def
        stop_playback01_def status01_def logger_def update_display01_def)
  with main01_demo show ?thesis by simp
qed

subsection \<open>Startup without a catalog\<close>

lemma scan03_Nil: "scan03 names = [] \<longleftrightarrow> (\<forall>n \<in> set names. \<not> recognized03 n)"
proof -
  have s: "\<And>xs :: string list. sort xs = [] \<longleftrightarrow> xs = []"
    by (metis length_sort length_0_conv)
  show ?thesis
    by (auto simp: scan03_def recognized03_def list_ex_iff s filter_empty_conv)
qed

lemma load_audio_files03_exit:
  assumes "audio_dir env = None \<or> (\<exists>names. audio_dir env = Some names \<and> (\<forall>n \<in> set names. \<not> recognized03 n))"
  shows "\<exists>s'. load_audio_files03 env s = Inl (1, s') \<and> renders s' = renders s \<and>
           logged s' \<noteq> [] \<and> fst (last (logged s')) = ERROR"
  using assms
  by (auto simp: load_audio_files03_def Let_def logger_def scan03_Nil [symmetric])

lemma load_audio_files06_exit:
  assumes "audio_dir env = None \<or> (\<exists>names. audio_dir env = Some names \<and> (\<forall>n \<in> set names. \<not> recognized03 n))"
  shows "\<exists>s'. load_audio_files06 env s = Inl (1, s') \<and> renders s' = renders s \<and>
           logged s' \<noteq> [] \<and> fst (last (logged s')) = ERROR"
  using assms
  by (auto simp: load_audio_files06_def Let_def logger_def scan03_Nil [symmetric])

text \<open>
  Claim C8. If the directory \<^verbatim>\<open>audio_library\<close> is absent, or holds no file one of the
  four patterns recognises, the process ends during \<^verbatim>\<open>AudioPlayer()\<close> with exit code 1 and
  an ERROR record as its last log line: \<^verbatim>\<open>run\<close> is never entered and no frame was pushed
  to the display. Stated for luffy03 and luffy06, whatever else startup finds.
\<close>

theorem C8_no_catalog_exits_before_render:
  assumes "audio_dir env = None \<or>
           (\<exists>names. audio_dir env = Some names \<and> (\<forall>n \<in> set names. \<not> recognized03 n))"
  shows "\<exists>s q. main03 F env = Inl (1, s) \<and> renders s = [] \<and>
                logged s \<noteq> [] \<and> fst (last (logged s)) = ERROR \<and>
                main06 F env = Inl (1, q) \<and> renders q = [] \<and>
                logged q \<noteq> [] \<and> fst (last (logged q)) = ERROR"
proof -
  let ?s0 = "if font_ok env then fields03
             else logger WARNING ''Default font not found, using default bitmap font'' NoArg fields03"
  let ?q0 = "if font_ok env then fields06
             else logger WARNING ''Default font not found, using default bitmap font'' NoArg fields06"
  have r0: "renders ?s0 = []" "renders ?q0 = []"
    by (simp_all add: fields03_def fields06_def logger_def)
  have a: "\<exists>s. main03 F env = Inl (1, s) \<and> renders s = [] \<and>
                logged s \<noteq> [] \<and> fst (last (logged s)) = ERROR"
  proof (cases "gpio_ok env")
    case True
    from load_audio_files03_exit [OF assms, of ?s0] True r0 show ?thesis
      by (auto simp: main03_def AudioPlayer03_def setup_gpio_def Let_def)
  next
    case False
    with r0 show ?thesis
      by (simp add: main03_def AudioPlayer03_def setup_gpio_def Let_def logger_def)
  qed
  have b: "\<exists>q. main06 F env = Inl (1, q) \<and> renders q = [] \<and>
                logged q \<noteq> [] \<and> fst (last (logged q)) = ERROR"
  proof (cases "gpio_ok env")
    case True
    from load_audio_files06_exit [OF assms, of ?q0] True r0 show ?thesis
      by (auto simp: main06_def AudioPlayer06_def setup_gpio_def Let_def)
  next
    case False
    with r0 show ?thesis
      by (simp add: main06_def AudioPlayer06_def setup_gpio_def Let_def logger_def)
  qed
  from a b show ?thesis by blast
qed

theorem C8_no_catalog_exits_before_render_witness:
  "audio_dir absent_env = None \<and>
   audio_dir unrecognized_env = Some [''notes.txt'', ''cover.jpg''] \<and>
   \<not> recognized03 ''notes.txt'' \<and> \<not> recognized03 ''cover.jpg'' \<and>
   (\<exists>s q. main03 {} absent_env = Inl (1, s) \<and> renders s = [] \<and>
           logged s \<noteq> [] \<and> fst (last (logged s)) = ERROR \<and>
           main06 {} absent_env = Inl (1, q) \<and> renders q = [] \<and>
           logged q \<noteq> [] \<and> fst (last (logged q)) = ERROR) \<and>
   (\<exists>s q. main03 {} unrecognized_env = Inl (1, s) \<and> renders s = [] \<and>
           logged s \<noteq> [] \<and> fst (last (logged s)) = ERROR \<and>
           main06 {} unrecognized_env = Inl (1, q) \<and> renders q = [] \<and>
           logged q \<noteq> [] \<and> fst (last (logged q)) = ERROR) \<and>
   main03 {} absent_env =
     Inl (1, fields03\<lparr>logged := [(ERROR, ''audio_library directory not found'', NoArg)]\<rparr>) \<and>
   main03 {} unrecognized_env =
     Inl (1, fields03\<lparr>logged := [(ERROR, ''No audio files found in audio_library'', NoArg)]\<rparr>)"
proof -
  have r: "\<not> recognized03 ''notes.txt''" "\<not> recognized03 ''cover.jpg''"
    by (simp_all add: recognized03_def extensions03_def glob_ext_def)
  have a: "audio_dir absent_env = None \<or>
     (\<exists>names. audio_dir absent_env = Some names \<and> (\<forall>n \<in> set names. \<not> recognized03 n))"
    by (simp add: absent_env_def)
  have b: "audio_dir unrecognized_env = None \<or>
     (\<exists>names. audio_dir unrecognized_env = Some names \<and> (\<forall>n \<in> set names. \<not> recognized03 n))"
    using r by (simp add: unrecognized_env_def)
  have s: "scan03 [''notes.txt'', ''cover.jpg''] = []"
    using r by (simp add: scan03_Nil)
  have c: "main03 {} absent_env =
     Inl (1, fields03\<lparr>logged := [(ERROR, ''audio_library directory not found'', NoArg)]\<rparr>)"
    "main03 {} unrecognized_env =
     Inl (1, fields03\<lparr>logged := [(ERROR, ''No audio files found in audio_library'', NoArg)]\<rparr>)"
    by (simp_all add: main03_def AudioPlayer03_def setup_gpio_def load_audio_files03_def
        absent_env_def unrecognized_env_def logger_def fields03_def s)
  have d: "audio_dir absent_env = None"
    "audio_dir unrecognized_env = Some [''notes.txt'', ''cover.jpg'']"
    by (simp_all add: absent_env_def unrecognized_env_def)
  from C8_no_catalog_exits_before_render [OF a, of "{}"]
    C8_no_catalog_exits_before_render [OF b, of "{}"] r c d
  show ?thesis by blast
qed

subsection \<open>The queue of luffy06\<close>

lemma drain06_empty: "event_queue s = [] \<Longrightarrow> drain06 n F s = s"
  by (cases n) simp_all

lemma event_handler06_timeout: "event_queue s = [] \<Longrightarrow> event_handler06 F s = s"
  by (simp add: event_handler06_def)

lemma event_handler06_refresh:
  assumes "running s" and "event_queue s = UPDATE_DISPLAY # es"
    and "current_track_index s < length (audio_files s)" and "Display \<notin> F"
  shows "event_handler06 F s =
           s\<lparr>event_queue := es,
             renders := renders s @
               [\<lparr>shown_track = path_name (audio_files s ! current_track_index s),
                 shown_playing = is_playing s, shown_volume = volume s,
                 shown_time = (is_playing s \<and> media s \<noteq> None)\<rparr>]\<rparr>"
  using assms by (simp add: event_handler06_def update_display06_def)

lemma playing06_reached:
  "event_handler06 {} (exec06 {} (Button 5) demo06) = playing06"
  by (simp add: demo06_def playing06_def exec06_def handle_button06_pins toggle_playback06_def
      start_playback06_def Let_def logger_def put_def engine_play_def event_handler06_def
      update_display06_def path_name_demo)

text \<open>
  Claim C9, as the code has it. When the queue wait of the event thread times out with
  no event, \<^verbatim>\<open>event_handler\<close> does nothing: no refresh is synthesised and nothing is
  rendered. The periodic refresh comes from the loop of \<^verbatim>\<open>run\<close> in the main thread, which
  once per turn enqueues one UPDATE_DISPLAY, and only while \<^verbatim>\<open>is_playing\<close>; the event
  thread then renders once for it. So a quiet tick (a turn of the main loop on an empty
  queue, then the event thread draining) renders exactly one frame while Playing and
  none while Paused or Stopped, and changes nothing else.
\<close>

theorem C9_quiet_tick_renders_only_while_playing:
  assumes "running s" and "event_queue s = []"
    and "current_track_index s < length (audio_files s)" and "Display \<notin> F"
  shows "event_handler06 F s = s \<and>
         run_loop06 s = (if is_playing s then s\<lparr>event_queue := [UPDATE_DISPLAY]\<rparr> else s) \<and>
         length (renders (drain06 (Suc n) F (run_loop06 s))) =
           length (renders s) + (if is_playing s then 1 else 0) \<and>
         (drain06 (Suc n) F (run_loop06 s))\<lparr>renders := renders s\<rparr> = s"
proof (cases "is_playing s")
  case True
  let ?s1 = "s\<lparr>event_queue := [UPDATE_DISPLAY]\<rparr>"
  let ?s2 = "s\<lparr>event_queue := [],
             renders := renders s @
               [\<lparr>shown_track = path_name (audio_files s ! current_track_index s),
                 shown_playing = is_playing s, shown_volume = volume s,
                 shown_time = (is_playing s \<and> media s \<noteq> None)\<rparr>]\<rparr>"
  from True assms have r: "run_loop06 s = ?s1"
    by (simp add: run_loop06_def put_def)
  from assms have h: "event_handler06 F ?s1 = ?s2"
    by (simp add: event_handler06_def update_display06_def)
  have d: "drain06 (Suc n) F ?s1 = ?s2"
    by (simp add: h drain06_empty)
  from assms(2) have "?s2\<lparr>renders := renders s\<rparr> = s" by simp
  with True r d assms(2) show ?thesis
    by (simp add: event_handler06_timeout)
next
  case False
  with assms have r: "run_loop06 s = s"
    by (simp add: run_loop06_def)
  from False r assms(2) show ?thesis
    by (simp add: event_handler06_timeout)
qed

theorem C9_quiet_tick_renders_only_while_playing_witness:
  "running demo06 \<and> event_queue demo06 = [] \<and> \<not> is_playing demo06 \<and>
   current_track_index demo06 < length (audio_files demo06) \<and>
   event_handler06 {} demo06 = demo06 \<and>
   length (renders (drain06 (Suc 0) {} (run_loop06 demo06))) = length (renders demo06) \<and>
   running playing06 \<and> event_queue playing06 = [] \<and> is_playing playing06 \<and>
   event_handler06 {} playing06 = playing06 \<and>
   length (renders (drain06 (Suc 0) {} (run_loop06 playing06))) = length (renders playing06) + 1"
proof -
  have a: "running demo06" "event_queue demo06 = []"
    "current_track_index demo06 < length (audio_files demo06)" "Display \<notin> {}"
    "\<not> is_playing demo06"
    by (simp_all add: demo06_def)
  have b: "running playing06" "event_queue playing06 = []"
    "current_track_index playing06 < length (audio_files playing06)" "Display \<notin> {}"
    "is_playing playing06"
    by (simp_all add: playing06_def demo06_def)
  note t1 = C9_quiet_tick_renders_only_while_playing [OF a(1-4), of 0]
  note t2 = C9_quiet_tick_renders_only_while_playing [OF b(1-4), of 0]
  have x1: "length (renders (drain06 (Suc 0) {} (run_loop06 demo06))) = length (renders demo06)"
    using t1 [THEN conjunct2, THEN conjunct2, THEN conjunct1] a(5)
    by (simp del: drain06.simps)
  have x2: "length (renders (drain06 (Suc 0) {} (run_loop06 playing06))) =
      length (renders playing06) + 1"
    using t2 [THEN conjunct2, THEN conjunct2, THEN conjunct1] b(5)
    by (simp del: drain06.simps)
  from t1 [THEN conjunct1] t2 [THEN conjunct1] x1 x2 a b
  show ?thesis by (simp del: drain06.simps)
qed

text \<open>
  Claim C9 as the specification states it fails: in the Stopped state in which luffy06
  starts, with an empty queue, the timed-out wait renders nothing and a whole quiet tick
  adds no frame.
\<close>

theorem C9_no_refresh_when_not_playing_counterexample:
  "main06 {} demo_env = Inr demo06 \<and>
   status demo06 = Stopped \<and> running demo06 \<and> event_queue demo06 = [] \<and>
   event_handler06 {} demo06 = demo06 \<and>
   run_loop06 demo06 = demo06 \<and>
   renders (drain06 (Suc 0) {} (run_loop06 demo06)) = renders demo06"
proof -
  have "status demo06 = Stopped \<and> running demo06 \<and> event_queue demo06 = [] \<and>
   event_handler06 {} demo06 = demo06 \<and>
   run_loop06 demo06 = demo06 \<and>
   renders (drain06 (Suc 0) {} (run_loop06 demo06)) = renders demo06"
    by (simp add: demo06_def status_def event_handler06_def run_loop06_def)
  with main06_demo show ?thesis by simp
qed

subsection \<open>Who renders in luffy06\<close>

lemma toggle_playback06_renders:
  "toggle_playback06 F s = Inr s' \<Longrightarrow> renders s' = renders s"
  by (auto simp: toggle_playback06_def put_fields start_playback06_fields engine_pause_def
      engine_play_def split: if_splits)

lemma next_track06_renders:
  "next_track06 F s = Inr s' \<Longrightarrow> renders s' = renders s"
  by (auto simp: next_track06_def Let_def logger_fields put_fields start_playback06_fields
      split: if_splits)

lemma handle_button06_renders:
  "handle_button06 F pin s = Inr s' \<Longrightarrow> renders s' = renders s"
  by (auto simp: handle_button06_def Let_def logger_DEBUG logger_fields adjust_volume06_fields
      split: sum.splits if_splits dest: toggle_playback06_renders next_track06_renders)

lemma exec06_Button_renders: "renders (exec06 F (Button pin) s) = renders s"
  by (auto simp: exec06_def split: sum.splits dest: handle_button06_renders)

lemma exec06_Notify:
  "exec06 F (Notify ev) s =
     (if ev_type ev = MediaStateChanged \<and> new_state ev = Ended
      then s\<lparr>event_queue := event_queue s @ [MEDIA_END]\<rparr> else s)"
  by (simp add: exec06_def on_media_state_changed06_def put_def)

lemma exec06_Tick:
  "exec06 F Tick s =
     (if running s \<and> is_playing s then s\<lparr>event_queue := event_queue s @ [UPDATE_DISPLAY]\<rparr> else s)"
  by (simp add: exec06_def run_loop06_def put_def)

text \<open>
  Claim C10, as the code has it. In luffy06 the engine-notification context
  (\<^verbatim>\<open>on_media_state_changed\<close>) only appends MEDIA_END to the queue, and the loop of the
  main thread only appends UPDATE_DISPLAY: neither changes any other field. The
  button-callback context (\<^verbatim>\<open>handle_button\<close>) does change the playback state itself,
  under the lock, but never renders: it leaves the frames as they are. So once the player
  runs, a new frame can only come from the drain loop of the event thread. (Before its
  loop, \<^verbatim>\<open>run\<close> in the main thread draws the first frame.)
\<close>

theorem C10_only_drain_loop_renders:
  "(context_of a = EngineNotification \<longrightarrow>
      exec06 F a s = s \<or> exec06 F a s = s\<lparr>event_queue := event_queue s @ [MEDIA_END]\<rparr>) \<and>
   (context_of a = MainThread \<longrightarrow>
      exec06 F a s = s \<or> exec06 F a s = s\<lparr>event_queue := event_queue s @ [UPDATE_DISPLAY]\<rparr>) \<and>
   (context_of a = ButtonCallback \<longrightarrow> renders (exec06 F a s) = renders s) \<and>
   (renders (exec06 F a s) \<noteq> renders s \<longrightarrow> context_of a = DrainLoop) \<and>
   (Display \<notin> F \<and> current_track_index s < length (audio_files s) \<longrightarrow>
      length (renders (run06 F s)) = Suc (length (renders s)))"
proof -
  have r: "Display \<notin> F \<and> current_track_index s < length (audio_files s) \<longrightarrow>
      length (renders (run06 F s)) = Suc (length (renders s))"
    by (simp add: run06_def update_display06_def logger_def)
  have n: "context_of a = EngineNotification \<longrightarrow>
      exec06 F a s = s \<or> exec06 F a s = s\<lparr>event_queue := event_queue s @ [MEDIA_END]\<rparr>"
  proof (cases a)
    case (Notify ev)
    show ?thesis
      unfolding Notify exec06_Notify
      by (cases "ev_type ev = MediaStateChanged \<and> new_state ev = Ended") (simp_all only: if_True if_False simp_thms)
  qed simp_all
  have t: "context_of a = MainThread \<longrightarrow>
      exec06 F a s = s \<or> exec06 F a s = s\<lparr>event_queue := event_queue s @ [UPDATE_DISPLAY]\<rparr>"
  proof (cases a)
    case Tick
    show ?thesis
      unfolding Tick exec06_Tick
      by (cases "running s \<and> is_playing s") (simp_all only: if_True if_False simp_thms)
  qed simp_all
  have b: "context_of a = ButtonCallback \<longrightarrow> renders (exec06 F a s) = renders s"
    by (cases a) (simp_all add: exec06_Button_renders)
  have d: "renders (exec06 F a s) \<noteq> renders s \<longrightarrow> context_of a = DrainLoop"
  proof (cases a)
    case (Button pin)
    then show ?thesis by (simp add: exec06_Button_renders)
  next
    case (Notify ev)
    have "renders (exec06 F (Notify ev) s) = renders s"
      by (simp add: exec06_def on_media_state_changed06_def put_fields)
    with Notify show ?thesis by simp
  next
    case Drain
    then show ?thesis by simp
  next
    case Tick
    have "renders (exec06 F Tick s) = renders s"
      by (simp add: exec06_def run_loop06_def put_fields)
    with Tick show ?thesis by simp
  qed
  from n t b d r show ?thesis by blast
qed

theorem C10_only_drain_loop_renders_witness:
  "context_of (Notify \<lparr>ev_type = MediaStateChanged, new_state = Ended\<rparr>) = EngineNotification \<and>
   exec06 {} (Notify \<lparr>ev_type = MediaStateChanged, new_state = Ended\<rparr>) playing06 =
     playing06\<lparr>event_queue := [MEDIA_END]\<rparr> \<and>
   context_of Tick = MainThread \<and>
   exec06 {} Tick playing06 = playing06\<lparr>event_queue := [UPDATE_DISPLAY]\<rparr> \<and>
   context_of (Button 5) = ButtonCallback \<and>
   renders (exec06 {} (Button 5) playing06) = renders playing06 \<and>
   is_playing playing06 \<and> \<not> is_playing (exec06 {} (Button 5) playing06) \<and>
   context_of Drain = DrainLoop \<and>
   renders (exec06 {} Drain (exec06 {} Tick playing06)) \<noteq> renders (exec06 {} Tick playing06) \<and>
   length (renders (run06 {} playing06)) = Suc (length (renders playing06))"
proof -
  let ?n = "Notify \<lparr>ev_type = MediaStateChanged, new_state = Ended\<rparr>"
  have e: "event_queue playing06 = []" "is_playing playing06"
    "current_track_index playing06 < length (audio_files playing06)" "running playing06"
    by (simp_all add: playing06_def demo06_def)
  have "event_queue (exec06 {} ?n playing06) = [MEDIA_END]"
    by (simp add: exec06_Notify e)
  with e(1) have n: "exec06 {} ?n playing06 \<noteq> playing06"
    by auto
  have "event_queue (exec06 {} Tick playing06) = [UPDATE_DISPLAY]"
    by (simp add: exec06_Tick e)
  with e(1) have t: "exec06 {} Tick playing06 \<noteq> playing06"
    by auto
  have p: "\<not> is_playing (exec06 {} (Button 5) playing06)"
    by (simp add: exec06_def handle_button06_pins toggle_playback06_def playing06_def demo06_def
        put_def engine_pause_def)
  have t': "exec06 {} Tick playing06 = playing06\<lparr>event_queue := [UPDATE_DISPLAY]\<rparr>"
    by (simp add: exec06_Tick e)
  have "length (renders (event_handler06 {} (playing06\<lparr>event_queue := [UPDATE_DISPLAY]\<rparr>))) =
      Suc (length (renders playing06))"
    by (subst event_handler06_refresh [where es = "[]"]) (simp_all add: e)
  then have d: "renders (exec06 {} Drain (exec06 {} Tick playing06)) \<noteq>
      renders (exec06 {} Tick playing06)"
    unfolding t' by (auto simp: exec06_def)
  have c: "context_of ?n = EngineNotification" "context_of Tick = MainThread"
    "context_of (Button 5) = ButtonCallback" "context_of Drain = DrainLoop"
    by simp_all
  from C10_only_drain_loop_renders [of ?n "{}" playing06, THEN conjunct1] c(1) n e(1)
  have x1: "exec06 {} ?n playing06 = playing06\<lparr>event_queue := [MEDIA_END]\<rparr>"
    by simp
  from C10_only_drain_loop_renders [of Tick "{}" playing06, THEN conjunct2, THEN conjunct1]
    c(2) t e(1)
  have x2: "exec06 {} Tick playing06 = playing06\<lparr>event_queue := [UPDATE_DISPLAY]\<rparr>"
    by simp
  from C10_only_drain_loop_renders [of "Button 5" "{}" playing06,
      THEN conjunct2, THEN conjunct2, THEN conjunct1] c(3)
  have x3: "renders (exec06 {} (Button 5) playing06) = renders playing06"
    by simp
  from C10_only_drain_loop_renders [of "Button 5" "{}" playing06,
      THEN conjunct2, THEN conjunct2, THEN conjunct2, THEN conjunct2] e(3)
  have x4: "length (renders (run06 {} playing06)) = Suc (length (renders playing06))"
    by simp
  from c x1 x2 x3 x4 e(2) p d show ?thesis
    by (intro conjI)
qed

text \<open>
  Claim C10 as the specification states it fails: in luffy06 the button callbacks change
  the volume, the status and the index themselves, outside the drain loop.
\<close>

theorem C10_button_callback_mutates_counterexample:
  "context_of (Button 24) = ButtonCallback \<and>
   volume demo06 = 50 \<and> volume (exec06 {} (Button 24) demo06) = 55 \<and>
   context_of (Button 5) = ButtonCallback \<and>
   status demo06 = Stopped \<and> status (exec06 {} (Button 5) demo06) = Playing \<and>
   context_of (Button 6) = ButtonCallback \<and>
   current_track_index demo06 = 0 \<and> current_track_index (exec06 {} (Button 6) demo06) = 1"
proof -
  have d: "volume demo06 = 50" "status demo06 = Stopped" "current_track_index demo06 = 0"
    "audio_files demo06 \<noteq> []" "length (audio_files demo06) = 2" "media demo06 = None"
    "current_track_index demo06 < length (audio_files demo06)"
    by (simp_all add: demo06_def status_def)
  have v: "volume (exec06 {} (Button 24) demo06) = 55"
    by (simp add: exec06_def handle_button06_pins adjust_volume06_fields d)
  have "is_playing (start_playback06 {} demo06)"
    by (rule start_playback06_ok) (simp_all add: d)
  then have s: "status (exec06 {} (Button 5) demo06) = Playing"
    by (simp add: exec06_def handle_button06_pins toggle_playback06_def d status_def)
  have n: "current_track_index (exec06 {} (Button 6) demo06) = 1"
    by (simp add: exec06_Next d)
  from d v s n show ?thesis by simp
qed

end
